theory Spec2Isabelle
  imports Complex_Main
begin

section \<open>Attribution calculator (calculateAttributionModels)\<close>

text \<open>
  A touchpoint of the customer journey, with the fields the conversion route reads:
  the millisecond timestamp, the session identifier and the UTM triple. Timestamps
  and clock readings are integers of magnitude below \<open>2^53\<close>, on which the
  subtraction of doubles is exact.
\<close>

record touchpoint =
  timestamp :: int
  session_id :: string
  utm_source :: "string option"
  utm_medium :: "string option"
  utm_campaign :: "string option"

text \<open>
  The object \<open>{ ...tp, attribution_weight: w }\<close>: every field of \<open>tp\<close> and one more.
  The linear and position-based weights are kept as the exact values of their
  formulas, which their doubles match up to rounding. The time-decay weights are
  doubles (\<open>jsnum\<close> below), since underflow and division by zero decide their value.
\<close>

record 'w weighted_touchpoint = touchpoint +
  attribution_weight :: 'w

definition with_weight :: "touchpoint \<Rightarrow> 'w \<Rightarrow> 'w weighted_touchpoint" where
  "with_weight tp w =
     \<lparr>timestamp = timestamp tp, session_id = session_id tp,
      utm_source = utm_source tp, utm_medium = utm_medium tp,
      utm_campaign = utm_campaign tp, attribution_weight = w\<rparr>"

text \<open>
  A JavaScript number: a finite double, an infinity or \<open>NaN\<close>. Zero carries no sign;
  the zeros met here are sums and quotients of non-negative numbers.
\<close>

datatype jsnum = Fin real | PosInf | NegInf | NaN

text \<open>
  Rounding of a real to the nearest binary64 value, ties to even: the unit in the
  last place of \<open>x\<close> is \<open>2^(e - 52)\<close> with \<open>e\<close> the binary exponent of \<open>x\<close>, not below
  the subnormal exponent \<open>-1022\<close>. The exponent is unbounded above; \<open>to_double\<close>
  turns a result of magnitude \<open>2^1024\<close> or more into an infinity.
\<close>

definition round_even :: "real \<Rightarrow> int" where
  "round_even r =
     (let f = \<lfloor>r\<rfloor>
      in if r - of_int f < 1 / 2 then f
         else if 1 / 2 < r - of_int f then f + 1
         else if even f then f else f + 1)"

definition ulp_exp :: "real \<Rightarrow> int" where
  "ulp_exp x = max \<lfloor>log 2 \<bar>x\<bar>\<rfloor> (- 1022) - 52"

definition round_double :: "real \<Rightarrow> real" where
  "round_double x =
     (if x = 0 then 0
      else of_int (round_even (x / 2 powr of_int (ulp_exp x))) * 2 powr of_int (ulp_exp x))"

definition to_double :: "real \<Rightarrow> jsnum" where
  "to_double x =
     (let r = round_double x
      in if 2 ^ 1024 \<le> r then PosInf
         else if r \<le> - (2 ^ 1024) then NegInf
         else Fin r)"

text \<open>The sum \<open>a + b\<close> and the quotient \<open>a / b\<close> of two JavaScript numbers.\<close>

fun js_add :: "jsnum \<Rightarrow> jsnum \<Rightarrow> jsnum" where
  "js_add (Fin a) (Fin b) = to_double (a + b)"
| "js_add NaN b = NaN"
| "js_add a NaN = NaN"
| "js_add PosInf NegInf = NaN"
| "js_add NegInf PosInf = NaN"
| "js_add PosInf b = PosInf"
| "js_add a PosInf = PosInf"
| "js_add NegInf b = NegInf"
| "js_add a NegInf = NegInf"

fun js_div :: "jsnum \<Rightarrow> jsnum \<Rightarrow> jsnum" where
  "js_div (Fin a) (Fin b) =
     (if b = 0 then (if a = 0 then NaN else if 0 < a then PosInf else NegInf)
      else to_double (a / b))"
| "js_div NaN b = NaN"
| "js_div a NaN = NaN"
| "js_div (Fin a) PosInf = Fin 0"
| "js_div (Fin a) NegInf = Fin 0"
| "js_div PosInf (Fin b) = (if 0 \<le> b then PosInf else NegInf)"
| "js_div NegInf (Fin b) = (if 0 \<le> b then NegInf else PosInf)"
| "js_div a b = NaN"

text \<open>
  \<open>Math.pow(2, x)\<close> for a finite \<open>x\<close>, taken as the correctly rounded power. The
  facts below use it at exact powers of two and far inside the underflow range.
\<close>

definition js_pow2 :: "real \<Rightarrow> jsnum" where
  "js_pow2 x = to_double (2 powr x)"

record attribution_models =
  first_click :: "touchpoint option"
  last_click :: "touchpoint option"
  linear_model :: "real weighted_touchpoint list"
  time_decay :: "jsnum weighted_touchpoint list"
  position_based :: "real weighted_touchpoint list"

text \<open>\<open>Array.prototype.map\<close> with the callback receiving the element and its index.\<close>

definition map_index :: "('a \<Rightarrow> nat \<Rightarrow> 'b) \<Rightarrow> 'a list \<Rightarrow> 'b list" where
  "map_index f xs = map (\<lambda>(x, index). f x index) (zip xs [0..<length xs])"

text \<open>\<open>reduce((sum, weight) => sum + weight, 0)\<close>: a left fold from 0.\<close>

definition reduce_sum :: "jsnum list \<Rightarrow> jsnum" where
  "reduce_sum ws = foldl (\<lambda>sum weight. js_add sum weight) (Fin 0) ws"

definition halfLife :: real where
  "halfLife = 7 * 24 * 60 * 60 * 1000"

text \<open>
  The raw weights: \<open>timeDiff\<close> is exact, the quotient \<open>-timeDiff / halfLife\<close> is
  rounded (it is finite, \<open>halfLife\<close> being above 1), and the power is taken of it.
\<close>

definition timeDecayWeights :: "int \<Rightarrow> touchpoint list \<Rightarrow> jsnum list" where
  "timeDecayWeights now customerJourney =
     map (\<lambda>tp. let timeDiff = real_of_int (now - timestamp tp)
               in js_pow2 (round_double (- timeDiff / halfLife))) customerJourney"

definition positionWeight :: "nat \<Rightarrow> nat \<Rightarrow> real" where
  "positionWeight n index =
     (if n = 1 then 1
      else if index = 0 then 4 / 10
      else if int index = int n - 1 then 4 / 10
      else (2 / 10) / real_of_int (max 1 (int n - 2)))"

definition no_attribution :: attribution_models where
  "no_attribution =
     \<lparr>first_click = None, last_click = None, linear_model = [],
      time_decay = [], position_based = []\<rparr>"

text \<open>
  The argument is \<open>None\<close> for a \<open>null\<close>/\<open>undefined\<close> journey. \<open>now\<close> is the value
  \<open>Date.now()\<close> returns when the function runs.
\<close>

definition calculateAttributionModels :: "int \<Rightarrow> touchpoint list option \<Rightarrow> attribution_models" where
  "calculateAttributionModels now customerJourney =
     (case customerJourney of
        None \<Rightarrow> no_attribution
      | Some cj \<Rightarrow>
          if length cj = 0 then no_attribution
          else
            let firstClick = cj ! 0;
                lastClick = cj ! (length cj - 1);
                linearWeight = 1 / real (length cj);
                linear = map (\<lambda>tp. with_weight tp linearWeight) cj;
                weights = timeDecayWeights now cj;
                totalTimeDecayWeight = reduce_sum weights;
                timeDecay = map_index (\<lambda>tp index.
                              with_weight tp (js_div (weights ! index) totalTimeDecayWeight)) cj;
                positionBased = map_index (\<lambda>tp index.
                              with_weight tp (positionWeight (length cj) index)) cj
            in \<lparr>first_click = Some firstClick, last_click = Some lastClick,
                linear_model = linear, time_decay = timeDecay,
                position_based = positionBased\<rparr>)"

text \<open>
  \<open>calculateDaysToPurchase\<close>: \<open>null\<close> for a missing or empty journey, else the
  day difference of last and first timestamp under \<open>Math.round\<close> (round half up).
\<close>

definition calculateDaysToPurchase :: "touchpoint list option \<Rightarrow> int option" where
  "calculateDaysToPurchase customerJourney =
     (case customerJourney of
        None \<Rightarrow> None
      | Some cj \<Rightarrow>
          if length cj = 0 then None
          else
            let firstTouch = timestamp (cj ! 0);
                lastTouch = timestamp (cj ! (length cj - 1))
            in Some \<lfloor>real_of_int (lastTouch - firstTouch) / (1000 * 60 * 60 * 24) + 1 / 2\<rfloor>)"

definition calculateSessionsToConversion :: "touchpoint list option \<Rightarrow> nat" where
  "calculateSessionsToConversion customerJourney =
     (case customerJourney of
        None \<Rightarrow> 0
      | Some cj \<Rightarrow> if length cj = 0 then 0 else length (remdups (map session_id cj)))"

section \<open>Session tracker (handleSessionStart)\<close>

text \<open>
  A row of the \<open>sessions\<close> table. The table has a unique index on \<open>sessionId\<close>, so it
  is a map from the session identifier to the row. Instants are milliseconds since the
  epoch. The generated primary key \<open>id\<close> and the never-written \<open>userId\<close> are left out.
\<close>

record session =
  sessionId :: string
  visitorId :: string
  createdAt :: int
  updatedAt :: int
  expiresAt :: int
  userAgent :: "string option"
  ipAddress :: "string option"
  deviceType :: "string option"
  browser :: "string option"
  os :: "string option"
  country :: "string option"
  timezone :: "string option"
  language :: "string option"
  utmSource :: "string option"
  utmMedium :: "string option"
  utmCampaign :: "string option"
  utmTerm :: "string option"
  utmContent :: "string option"
  referrer :: "string option"
  landingPage :: "string option"
  fbclid :: "string option"
  gclid :: "string option"
  ttclid :: "string option"

text \<open>The payload of a \<open>session_start\<close> event, as \<open>handleSessionStart\<close> destructures it.\<close>

record session_start =
  d_sessionId :: string
  d_visitorId :: string
  d_userAgent :: "string option"
  d_ipAddress :: "string option"
  d_utmSource :: "string option"
  d_utmMedium :: "string option"
  d_utmCampaign :: "string option"
  d_utmTerm :: "string option"
  d_utmContent :: "string option"
  d_referrer :: "string option"
  d_landingPage :: "string option"
  d_fbclid :: "string option"
  d_gclid :: "string option"
  d_ttclid :: "string option"
  d_deviceType :: "string option"
  d_browser :: "string option"
  d_os :: "string option"
  d_country :: "string option"
  d_timezone :: "string option"
  d_language :: "string option"

type_synonym session_table = "string \<rightharpoonup> session"

definition inactivityWindow :: int where
  "inactivityWindow = 30 * 60 * 1000"

definition session_update :: "int \<Rightarrow> session \<Rightarrow> session" where
  "session_update now s = s\<lparr>updatedAt := now, expiresAt := now + inactivityWindow\<rparr>"

definition session_create :: "int \<Rightarrow> session_start \<Rightarrow> session" where
  "session_create now d =
     \<lparr>sessionId = d_sessionId d, visitorId = d_visitorId d,
      createdAt = now, updatedAt = now, expiresAt = now + inactivityWindow,
      userAgent = d_userAgent d, ipAddress = d_ipAddress d,
      deviceType = d_deviceType d, browser = d_browser d, os = d_os d,
      country = d_country d, timezone = d_timezone d, language = d_language d,
      utmSource = d_utmSource d, utmMedium = d_utmMedium d,
      utmCampaign = d_utmCampaign d, utmTerm = d_utmTerm d,
      utmContent = d_utmContent d, referrer = d_referrer d,
      landingPage = d_landingPage d, fbclid = d_fbclid d, gclid = d_gclid d,
      ttclid = d_ttclid d\<rparr>"

text \<open>
  \<open>prisma.session.upsert\<close> keyed by \<open>sessionId\<close>: an existing row gets the \<open>update\<close>
  part, a missing one is inserted from the \<open>create\<close> part. \<open>now\<close> is the server clock
  (\<open>new Date()\<close>, \<open>Date.now()\<close>) while the handler runs; the payload carries no instant.
\<close>

definition handleSessionStart :: "int \<Rightarrow> session_start \<Rightarrow> session_table \<Rightarrow> session_table" where
  "handleSessionStart now d tbl =
     (case tbl (d_sessionId d) of
        Some s \<Rightarrow> tbl(d_sessionId d \<mapsto> session_update now s)
      | None \<Rightarrow> tbl(d_sessionId d \<mapsto> session_create now d))"

section \<open>Conversion recorder (processConversion, Shopify webhook)\<close>

text \<open>Decimal rendering of a number inside a template string.\<close>

definition digit_char :: "nat \<Rightarrow> char" where
  "digit_char d = ''0123456789'' ! d"

function show_nat :: "nat \<Rightarrow> string" where
  "show_nat n = (if n < 10 then [digit_char n] else show_nat (n div 10) @ [digit_char (n mod 10)])"
  by pat_completeness auto
termination
  by (relation "measure id") auto

definition show_int :: "int \<Rightarrow> string" where
  "show_int i = (if i < 0 then CHR ''-'' # show_nat (nat (- i)) else show_nat (nat i))"

text \<open>JavaScript truthiness of an optional string: absent and empty are falsy.\<close>

definition truthy :: "string option \<Rightarrow> bool" where
  "truthy s = (case s of None \<Rightarrow> False | Some v \<Rightarrow> v \<noteq> [])"

record line_item =
  product_id :: "string option"
  variant_id :: "string option"
  sku :: "string option"
  item_name :: "string option"
  item_title :: "string option"
  item_category :: "string option"
  item_quantity :: "int option"
  item_price :: "real option"

record order_data =
  order_id :: string
  order_number :: "string option"
  total_price :: real
  currency :: "string option"
  line_items :: "line_item list option"
  customer_id :: "string option"
  email :: "string option"

text \<open>The \<open>attribution\<close> object of the request body.\<close>

record attribution =
  a_session_id :: "string option"
  a_utm_source :: "string option"
  a_utm_medium :: "string option"
  a_utm_campaign :: "string option"

text \<open>The object serialised into the \<open>attributionData\<close> column.\<close>

record attribution_data =
  customer_journey :: "touchpoint list option"
  attribution_models :: attribution_models
  original_attribution :: "attribution option"

text \<open>
  A row of the \<open>conversions\<close> table. \<open>cv_id\<close> is the generated primary key.
  \<open>conversionId\<close> is unique; \<open>orderId\<close> carries no uniqueness constraint.
\<close>

record conversion =
  cv_id :: nat
  cv_sessionId :: string
  conversionId :: string
  cv_createdAt :: int
  orderId :: "string option"
  orderNumber :: "string option"
  totalValue :: real
  cv_currency :: string
  itemCount :: "nat option"
  customerId :: "string option"
  cv_email :: "string option"
  firstClickUtmSource :: "string option"
  firstClickUtmMedium :: "string option"
  firstClickUtmCampaign :: "string option"
  lastClickUtmSource :: "string option"
  lastClickUtmMedium :: "string option"
  lastClickUtmCampaign :: "string option"
  attributionData :: "attribution_data option"
  touchpointCount :: "nat option"
  daysToPurchase :: "int option"
  sessionsToConversion :: "nat option"

record conversion_line_item =
  li_conversionId :: nat
  li_productId :: "string option"
  li_variantId :: "string option"
  li_sku :: "string option"
  li_productName :: "string option"
  li_category :: "string option"
  li_quantity :: int
  li_price :: real

record campaign =
  cp_name :: string
  cp_conversions :: int
  cp_revenue :: real
  cp_updatedAt :: int

record daily_metrics =
  dm_conversions :: int
  dm_revenue :: real
  dm_sessions :: int
  dm_updatedAt :: int

text \<open>
  The persistent store: sessions by \<open>sessionId\<close>, conversions and line items in
  insertion order, campaigns by their (source, medium, campaign) triple and daily
  metrics by calendar day.
\<close>

record db =
  sessions :: session_table
  conversions :: "conversion list"
  lineItems :: "conversion_line_item list"
  campaigns :: "(string \<times> string \<times> string) \<rightharpoonup> campaign"
  dailyMetrics :: "int \<rightharpoonup> daily_metrics"

datatype db_error = UniqueConstraintViolation | ForeignKeyViolation

text \<open>
  \<open>prisma.conversion.create\<close>: the row is rejected when its \<open>conversionId\<close> is taken or
  when its \<open>sessionId\<close> names no session (foreign key); else it is appended under a
  fresh primary key.
\<close>

definition conversion_create :: "conversion \<Rightarrow> db \<Rightarrow> db_error + (conversion \<times> db)" where
  "conversion_create row st =
     (if conversionId row \<in> set (map conversionId (conversions st)) then Inl UniqueConstraintViolation
      else if sessions st (cv_sessionId row) = None then Inl ForeignKeyViolation
      else let conversion = row\<lparr>cv_id := length (conversions st)\<rparr>
           in Inr (conversion, st\<lparr>conversions := conversions st @ [conversion]\<rparr>))"

definition or_else :: "'a option \<Rightarrow> 'a \<Rightarrow> 'a" where
  "or_else v d = (case v of None \<Rightarrow> d | Some x \<Rightarrow> x)"

definition lineItemRow :: "nat \<Rightarrow> line_item \<Rightarrow> conversion_line_item" where
  "lineItemRow cid item =
     \<lparr>li_conversionId = cid, li_productId = product_id item, li_variantId = variant_id item,
      li_sku = sku item,
      li_productName = (if truthy (item_name item) then item_name item else item_title item),
      li_category = item_category item,
      li_quantity = (case item_quantity item of None \<Rightarrow> 1 | Some q \<Rightarrow> if q = 0 then 1 else q),
      li_price = or_else (item_price item) 0\<rparr>"

text \<open>\<open>prisma.campaign.upsert\<close> on the triple; a failure is logged and swallowed.\<close>

definition updateCampaignPerformance :: "int \<Rightarrow> string \<Rightarrow> string \<Rightarrow> string \<Rightarrow> real \<Rightarrow> db \<Rightarrow> db" where
  "updateCampaignPerformance now source medium cmp revenue st =
     (case campaigns st (source, medium, cmp) of
        Some c \<Rightarrow> st\<lparr>campaigns := (campaigns st)((source, medium, cmp) \<mapsto>
                      c\<lparr>cp_conversions := cp_conversions c + 1,
                        cp_revenue := cp_revenue c + revenue,
                        cp_updatedAt := now\<rparr>)\<rparr>
      | None \<Rightarrow> st\<lparr>campaigns := (campaigns st)((source, medium, cmp) \<mapsto>
                      \<lparr>cp_name = cmp, cp_conversions = 1, cp_revenue = revenue,
                       cp_updatedAt = now\<rparr>)\<rparr>)"

text \<open>
  \<open>updateDailyMetrics(new Date(), {conversions: 1, revenue})\<close>; the day key is the
  instant truncated to a day (taken in UTC here). A zero revenue is falsy and leaves
  the column as it is.
\<close>

definition updateDailyMetrics :: "int \<Rightarrow> real \<Rightarrow> db \<Rightarrow> db" where
  "updateDailyMetrics now revenue st =
     (let dateOnly = now div (1000 * 60 * 60 * 24)
      in case dailyMetrics st dateOnly of
           Some m \<Rightarrow> st\<lparr>dailyMetrics := (dailyMetrics st)(dateOnly \<mapsto>
                         m\<lparr>dm_conversions := dm_conversions m + 1,
                           dm_revenue := (if revenue \<noteq> 0 then dm_revenue m + revenue else dm_revenue m),
                           dm_updatedAt := now\<rparr>)\<rparr>
         | None \<Rightarrow> st\<lparr>dailyMetrics := (dailyMetrics st)(dateOnly \<mapsto>
                         \<lparr>dm_conversions = 1, dm_revenue = revenue, dm_sessions = 0,
                          dm_updatedAt = now\<rparr>)\<rparr>)"

definition conversionRow :: "int \<Rightarrow> order_data \<Rightarrow> attribution option \<Rightarrow> touchpoint list option \<Rightarrow> conversion" where
  "conversionRow now orderData attr customerJourney =
     (let attributionModels = calculateAttributionModels now customerJourney;
          sid = (case attr of None \<Rightarrow> None | Some a \<Rightarrow> a_session_id a)
      in \<lparr>cv_id = 0,
          cv_sessionId = (if truthy sid then the sid else ''unknown_'' @ show_int now),
          conversionId = ''conv_'' @ order_id orderData @ ''_'' @ show_int now,
          cv_createdAt = now,
          orderId = Some (order_id orderData),
          orderNumber = order_number orderData,
          totalValue = total_price orderData,
          cv_currency = (if truthy (currency orderData) then the (currency orderData) else ''USD''),
          itemCount = Some (case line_items orderData of None \<Rightarrow> 0 | Some items \<Rightarrow> length items),
          customerId = customer_id orderData,
          cv_email = email orderData,
          firstClickUtmSource = Option.bind (first_click attributionModels) utm_source,
          firstClickUtmMedium = Option.bind (first_click attributionModels) utm_medium,
          firstClickUtmCampaign = Option.bind (first_click attributionModels) utm_campaign,
          lastClickUtmSource = Option.bind (last_click attributionModels) utm_source,
          lastClickUtmMedium = Option.bind (last_click attributionModels) utm_medium,
          lastClickUtmCampaign = Option.bind (last_click attributionModels) utm_campaign,
          attributionData = Some \<lparr>customer_journey = customerJourney,
                                  attribution_models = attributionModels,
                                  original_attribution = attr\<rparr>,
          touchpointCount = Some (case customerJourney of None \<Rightarrow> 0 | Some cj \<Rightarrow> length cj),
          daysToPurchase = calculateDaysToPurchase customerJourney,
          sessionsToConversion = Some (calculateSessionsToConversion customerJourney)\<rparr>)"

text \<open>
  \<open>processConversion\<close>: compute the models, insert the conversion (an error of the
  insert is rethrown), insert the line items, bump the campaign when the attribution
  names one, bump the daily metrics, return the inserted row. \<open>now\<close> is the clock
  reading of the call (\<open>Date.now()\<close>, \<open>new Date()\<close>).
\<close>

definition processConversion ::
  "int \<Rightarrow> order_data \<Rightarrow> attribution option \<Rightarrow> touchpoint list option \<Rightarrow> db \<Rightarrow> db_error + (conversion \<times> db)" where
  "processConversion now orderData attr customerJourney st =
     (case conversion_create (conversionRow now orderData attr customerJourney) st of
        Inl e \<Rightarrow> Inl e
      | Inr (conversion, st1) \<Rightarrow>
          let st2 = (case line_items orderData of
                       None \<Rightarrow> st1
                     | Some items \<Rightarrow>
                         if length items > 0
                         then st1\<lparr>lineItems := lineItems st1 @ map (lineItemRow (cv_id conversion)) items\<rparr>
                         else st1);
              st3 = (case attr of
                       None \<Rightarrow> st2
                     | Some a \<Rightarrow>
                         if truthy (a_utm_source a) \<and> truthy (a_utm_medium a) \<and> truthy (a_utm_campaign a)
                         then updateCampaignPerformance now (the (a_utm_source a)) (the (a_utm_medium a))
                                (the (a_utm_campaign a)) (total_price orderData) st2
                         else st2);
              st4 = updateDailyMetrics now (total_price orderData) st3
          in Inr (conversion, st4))"

text \<open>
  The Shopify webhook. \<open>so_session\<close> is what \<open>extractSessionId\<close> finds in the order's
  notes and attributes (\<open>None\<close> when it finds nothing); \<open>so_total_price\<close> and
  \<open>sl_price\<close> are the parsed prices.
\<close>

record shopify_line_item =
  sl_product_id :: "string option"
  sl_variant_id :: "string option"
  sl_sku :: "string option"
  sl_name :: "string option"
  sl_quantity :: int
  sl_price :: real

record shopify_order =
  so_id :: string
  so_order_number :: "string option"
  so_total_price :: real
  so_currency :: "string option"
  so_line_items :: "shopify_line_item list option"
  so_customer_id :: "string option"
  so_customer_email :: "string option"
  so_created_at :: int
  so_session :: "string option"

definition shopifyRow :: "shopify_order \<Rightarrow> conversion" where
  "shopifyRow order =
     \<lparr>cv_id = 0,
      cv_sessionId = (if truthy (so_session order) then the (so_session order)
                      else ''shopify_'' @ so_id order),
      conversionId = ''shopify_'' @ so_id order,
      cv_createdAt = so_created_at order,
      orderId = Some (so_id order),
      orderNumber = so_order_number order,
      totalValue = so_total_price order,
      cv_currency = or_else (so_currency order) ''USD'',
      itemCount = Some (case so_line_items order of None \<Rightarrow> 0 | Some items \<Rightarrow> length items),
      customerId = so_customer_id order,
      cv_email = so_customer_email order,
      firstClickUtmSource = None, firstClickUtmMedium = None, firstClickUtmCampaign = None,
      lastClickUtmSource = None, lastClickUtmMedium = None, lastClickUtmCampaign = None,
      attributionData = None, touchpointCount = None, daysToPurchase = None,
      sessionsToConversion = None\<rparr>"

text \<open>\<open>prisma.conversion.updateMany\<close>: apply \<open>f\<close> to every row of the given order.\<close>

definition updateMany :: "string \<Rightarrow> (conversion \<Rightarrow> conversion) \<Rightarrow> db \<Rightarrow> db" where
  "updateMany oid f st =
     st\<lparr>conversions := map (\<lambda>c. if orderId c = Some oid then f c else c) (conversions st)\<rparr>"

definition updateSessionAttribution :: "int \<Rightarrow> string \<Rightarrow> shopify_order \<Rightarrow> db \<Rightarrow> db" where
  "updateSessionAttribution now sid order st =
     (case sessions st sid of
        None \<Rightarrow> st
      | Some s \<Rightarrow>
          let days = \<lfloor>real_of_int (now - createdAt s) / (1000 * 60 * 60 * 24)\<rfloor>
          in updateMany (so_id order)
               (\<lambda>c. c\<lparr>firstClickUtmSource := utmSource s,
                       firstClickUtmMedium := utmMedium s,
                       firstClickUtmCampaign := utmCampaign s,
                       lastClickUtmSource := utmSource s,
                       lastClickUtmMedium := utmMedium s,
                       lastClickUtmCampaign := utmCampaign s,
                       daysToPurchase := Some days,
                       touchpointCount := Some 1,
                       sessionsToConversion := Some 1\<rparr>) st)"

definition handleOrderCreate :: "int \<Rightarrow> shopify_order \<Rightarrow> db \<Rightarrow> db_error + (conversion \<times> db)" where
  "handleOrderCreate now order st =
     (case conversion_create (shopifyRow order) st of
        Inl e \<Rightarrow> Inl e
      | Inr (conversion, st1) \<Rightarrow>
          let st2 = (case so_line_items order of
                       None \<Rightarrow> st1
                     | Some items \<Rightarrow>
                         st1\<lparr>lineItems := lineItems st1 @
                               map (\<lambda>item. \<lparr>li_conversionId = cv_id conversion,
                                             li_productId = sl_product_id item,
                                             li_variantId = sl_variant_id item,
                                             li_sku = sl_sku item,
                                             li_productName = sl_name item,
                                             li_category = None,
                                             li_quantity = sl_quantity item,
                                             li_price = sl_price item\<rparr>) items\<rparr>);
              st3 = (if truthy (so_session order)
                     then updateSessionAttribution now (the (so_session order)) order st2
                     else st2)
          in Inr (conversion, st3))"

section \<open>Funnel aggregator (getFunnelData)\<close>

record event =
  ev_sessionId :: string
  ev_eventName :: string
  ev_createdAt :: int

record funnel_step =
  step_name :: string
  eventPattern :: string

record funnel_row =
  step :: string
  visitors :: nat
  conversionRate :: real
  dropOff :: int

definition steps :: "funnel_step list" where
  "steps =
     [\<lparr>step_name = ''Landing Page Views'', eventPattern = ''page_view''\<rparr>,
      \<lparr>step_name = ''Product Views'', eventPattern = ''product_view''\<rparr>,
      \<lparr>step_name = ''Add to Cart'', eventPattern = ''add_to_cart''\<rparr>,
      \<lparr>step_name = ''Checkout Started'', eventPattern = ''checkout_started''\<rparr>,
      \<lparr>step_name = ''Purchase'', eventPattern = ''purchase_completed''\<rparr>]"

text \<open>
  \<open>prisma.event.groupBy({by: ['sessionId'], where: ...})\<close>: one group per distinct
  session among the events of that name created inside the window.
\<close>

definition groupBySession :: "event list \<Rightarrow> string \<Rightarrow> int \<Rightarrow> int \<Rightarrow> string list" where
  "groupBySession events pattern startDate endDate =
     remdups (map ev_sessionId
       (filter (\<lambda>e. ev_eventName e = pattern \<and> startDate \<le> ev_createdAt e \<and> ev_createdAt e \<le> endDate)
          events))"

text \<open>The first loop: one row per step, rate and drop-off still 0.\<close>

definition countVisitors :: "funnel_step list \<Rightarrow> event list \<Rightarrow> int \<Rightarrow> int \<Rightarrow> funnel_row list" where
  "countVisitors sts events startDate endDate =
     map (\<lambda>st. \<lparr>step = step_name st,
                visitors = length (groupBySession events (eventPattern st) startDate endDate),
                conversionRate = 0, dropOff = 0\<rparr>) sts"

text \<open>The body of the second loop at index \<open>i\<close>, updating the rows in place.\<close>

definition rateStep :: "nat \<Rightarrow> funnel_row list \<Rightarrow> funnel_row list" where
  "rateStep i funnelData =
     (let fd1 =
            (if i = 0 then funnelData[i := (funnelData ! i)\<lparr>conversionRate := 100\<rparr>]
             else
               let previousVisitors = visitors (funnelData ! 0)
               in funnelData[i := (funnelData ! i)\<lparr>conversionRate :=
                    (if previousVisitors > 0
                     then real (visitors (funnelData ! i)) / real previousVisitors * 100
                     else 0)\<rparr>])
      in if i > 0
         then fd1[i := (fd1 ! i)\<lparr>dropOff := int (visitors (fd1 ! (i - 1))) - int (visitors (fd1 ! i))\<rparr>]
         else fd1)"

definition calculateRates :: "funnel_row list \<Rightarrow> funnel_row list" where
  "calculateRates funnelData = fold rateStep [0..<length funnelData] funnelData"

definition computeFunnel :: "funnel_step list \<Rightarrow> event list \<Rightarrow> int \<Rightarrow> int \<Rightarrow> funnel_row list" where
  "computeFunnel sts events startDate endDate =
     calculateRates (countVisitors sts events startDate endDate)"

definition getFunnelData :: "event list \<Rightarrow> int \<Rightarrow> int \<Rightarrow> funnel_row list" where
  "getFunnelData events startDate endDate = computeFunnel steps events startDate endDate"

text \<open>
  JavaScript's \<open>a / b\<close> on numbers: a real number unless the divisor is 0, where the
  result is \<open>Infinity\<close> or \<open>NaN\<close> (\<open>None\<close> here).
\<close>

definition js_divide :: "real \<Rightarrow> real \<Rightarrow> real option" where
  "js_divide a b = (if b = 0 then None else Some (a / b))"

section \<open>Closed form of the rate loop and sample data\<close>

text \<open>
  The row the second loop of \<open>getFunnelData\<close> leaves at index \<open>i\<close>, written in terms
  of the rows it started from; \<open>calculateRates\<close> is proved equal to it below.
\<close>

definition rated :: "funnel_row list \<Rightarrow> nat \<Rightarrow> funnel_row" where
  "rated fd i =
     (if i = 0 then (fd ! 0)\<lparr>conversionRate := 100\<rparr>
      else (fd ! i)\<lparr>conversionRate :=
                       (if visitors (fd ! 0) > 0
                        then real (visitors (fd ! i)) / real (visitors (fd ! 0)) * 100 else 0),
                     dropOff := int (visitors (fd ! (i - 1))) - int (visitors (fd ! i))\<rparr>)"

text \<open>Sample touchpoints: two ordinary ones, and a pair seven days apart.\<close>

definition tp_search :: touchpoint where
  "tp_search = \<lparr>timestamp = 1000, session_id = ''s1'', utm_source = Some ''google'',
                utm_medium = Some ''cpc'', utm_campaign = Some ''spring''\<rparr>"

definition tp_social :: touchpoint where
  "tp_social = \<lparr>timestamp = 2000, session_id = ''s2'', utm_source = Some ''meta'',
                utm_medium = Some ''paid'', utm_campaign = Some ''promo''\<rparr>"

definition tp_email :: touchpoint where
  "tp_email = \<lparr>timestamp = 3000, session_id = ''s2'', utm_source = Some ''klaviyo'',
               utm_medium = Some ''email'', utm_campaign = None\<rparr>"

definition tp_day7 :: touchpoint where
  "tp_day7 = \<lparr>timestamp = 604800000, session_id = ''s1'', utm_source = Some ''google'',
              utm_medium = Some ''cpc'', utm_campaign = Some ''spring''\<rparr>"

definition tp_day0 :: touchpoint where
  "tp_day0 = \<lparr>timestamp = 1209600000, session_id = ''s2'', utm_source = None,
              utm_medium = None, utm_campaign = None\<rparr>"

text \<open>Two touchpoints 600 half-lives apart.\<close>

definition tp_epoch :: touchpoint where
  "tp_epoch = \<lparr>timestamp = 0, session_id = ''s1'', utm_source = Some ''google'',
               utm_medium = Some ''cpc'', utm_campaign = Some ''spring''\<rparr>"

definition tp_600 :: touchpoint where
  "tp_600 = \<lparr>timestamp = 362880000000, session_id = ''s2'', utm_source = Some ''meta'',
             utm_medium = Some ''paid'', utm_campaign = Some ''promo''\<rparr>"

text \<open>Sample \<open>session_start\<close> payloads for one session: a first visit and a later one.\<close>

definition visit_first :: session_start where
  "visit_first =
     \<lparr>d_sessionId = ''s1'', d_visitorId = ''v1'', d_userAgent = Some ''Mozilla'',
      d_ipAddress = None, d_utmSource = Some ''google'', d_utmMedium = Some ''cpc'',
      d_utmCampaign = None, d_utmTerm = None, d_utmContent = None, d_referrer = None,
      d_landingPage = Some ''/'', d_fbclid = None, d_gclid = None, d_ttclid = None,
      d_deviceType = None, d_browser = None, d_os = None, d_country = None,
      d_timezone = None, d_language = None\<rparr>"

definition visit_later :: session_start where
  "visit_later =
     \<lparr>d_sessionId = ''s1'', d_visitorId = ''v1'', d_userAgent = Some ''Mozilla'',
      d_ipAddress = None, d_utmSource = Some ''meta'', d_utmMedium = Some ''paid'',
      d_utmCampaign = Some ''promo'', d_utmTerm = None, d_utmContent = None,
      d_referrer = None, d_landingPage = Some ''/sale'', d_fbclid = Some ''fb1'',
      d_gclid = None, d_ttclid = None, d_deviceType = None, d_browser = None,
      d_os = None, d_country = None, d_timezone = None, d_language = None\<rparr>"

text \<open>Sample funnels: two steps, and events of three sessions inside and outside a window.\<close>

definition two_steps :: "funnel_step list" where
  "two_steps =
     [\<lparr>step_name = ''Landing Page Views'', eventPattern = ''page_view''\<rparr>,
      \<lparr>step_name = ''Add to Cart'', eventPattern = ''add_to_cart''\<rparr>]"

definition sample_events :: "event list" where
  "sample_events =
     [\<lparr>ev_sessionId = ''s1'', ev_eventName = ''page_view'', ev_createdAt = 10\<rparr>,
      \<lparr>ev_sessionId = ''s1'', ev_eventName = ''page_view'', ev_createdAt = 20\<rparr>,
      \<lparr>ev_sessionId = ''s2'', ev_eventName = ''page_view'', ev_createdAt = 30\<rparr>,
      \<lparr>ev_sessionId = ''s2'', ev_eventName = ''add_to_cart'', ev_createdAt = 40\<rparr>,
      \<lparr>ev_sessionId = ''s3'', ev_eventName = ''page_view'', ev_createdAt = 500\<rparr>]"

definition cart_only_events :: "event list" where
  "cart_only_events =
     [\<lparr>ev_sessionId = ''s1'', ev_eventName = ''product_view'', ev_createdAt = 5\<rparr>]"

definition counted_rows :: "funnel_row list" where
  "counted_rows =
     [\<lparr>step = ''Landing'', visitors = 100, conversionRate = 0, dropOff = 0\<rparr>,
      \<lparr>step = ''ProductView'', visitors = 60, conversionRate = 0, dropOff = 0\<rparr>,
      \<lparr>step = ''AddToCart'', visitors = 20, conversionRate = 0, dropOff = 0\<rparr>,
      \<lparr>step = ''Purchase'', visitors = 5, conversionRate = 0, dropOff = 0\<rparr>]"

text \<open>
  The store a handler leaves behind: the returned one, or the old one when the insert
  of the conversion was rejected (nothing is written before it).
\<close>

definition store_after :: "db \<Rightarrow> db_error + (conversion \<times> db) \<Rightarrow> db" where
  "store_after st r = (case r of Inl e \<Rightarrow> st | Inr (c, st') \<Rightarrow> st')"

text \<open>Sample store, order, attribution and journey for the conversion recorder.\<close>

definition shop_db :: db where
  "shop_db =
     \<lparr>sessions = [''s1'' \<mapsto> session_create 0 visit_first], conversions = [],
      lineItems = [], campaigns = Map.empty, dailyMetrics = Map.empty\<rparr>"

definition order_a :: order_data where
  "order_a =
     \<lparr>order_id = ''A'', order_number = Some ''1001'', total_price = 50,
      currency = Some ''USD'', line_items = None, customer_id = None, email = None\<rparr>"

definition attr_a :: attribution where
  "attr_a =
     \<lparr>a_session_id = Some ''s1'', a_utm_source = Some ''google'', a_utm_medium = Some ''cpc'',
      a_utm_campaign = Some ''spring''\<rparr>"

definition shopify_a :: shopify_order where
  "shopify_a =
     \<lparr>so_id = ''A'', so_order_number = Some ''1001'', so_total_price = 75,
      so_currency = Some ''USD'', so_line_items = None, so_customer_id = None,
      so_customer_email = None, so_created_at = 900, so_session = Some ''s1''\<rparr>"

text \<open>
  Sample runs: the same order recorded at clock readings 1000 and 2000, and a Shopify
  \<open>orders/create\<close> delivered for a fresh store.
\<close>

definition first_call :: "db_error + (conversion \<times> db)" where
  "first_call = processConversion 1000 order_a (Some attr_a) (Some [tp_search, tp_social]) shop_db"

definition second_call :: "db_error + (conversion \<times> db)" where
  "second_call =
     processConversion 2000 order_a (Some attr_a) (Some [tp_search, tp_social])
       (store_after shop_db first_call)"

definition hook_call :: "db_error + (conversion \<times> db)" where
  "hook_call = handleOrderCreate 3000 shopify_a shop_db"

section \<open>Auxiliary facts about the attribution calculator\<close>

lemma map_index_length: "length (map_index f xs) = length xs"
  by (simp add: map_index_def)

lemma map_index_nth: "i < length xs \<Longrightarrow> map_index f xs ! i = f (xs ! i) i"
  by (simp add: map_index_def)

lemma truncate_with_weight: "touchpoint.truncate (with_weight tp w) = tp"
  by (simp add: with_weight_def touchpoint.truncate_def)

lemma weight_with_weight: "attribution_weight (with_weight tp w) = w"
  by (simp add: with_weight_def)

lemma map_index_truncate:
  "map touchpoint.truncate (map_index (\<lambda>tp index. with_weight tp (g tp index)) xs) = xs"
  by (rule nth_equalityI) (simp_all add: map_index_length map_index_nth truncate_with_weight)

lemma map_index_weights:
  "map attribution_weight (map_index (\<lambda>tp index. with_weight tp (g index)) xs) = map g [0..<length xs]"
  by (rule nth_equalityI) (simp_all add: map_index_length map_index_nth weight_with_weight)

lemma timeDecayWeights_length: "length (timeDecayWeights now cj) = length cj"
  by (simp add: timeDecayWeights_def)

lemma models_nonempty:
  assumes "cj \<noteq> []"
  shows "first_click (calculateAttributionModels now (Some cj)) = Some (hd cj)"
    and "last_click (calculateAttributionModels now (Some cj)) = Some (last cj)"
  using assms by (simp_all add: calculateAttributionModels_def Let_def hd_conv_nth last_conv_nth)

lemma linear_weights:
  assumes "cj \<noteq> []"
  shows "map attribution_weight (linear_model (calculateAttributionModels now (Some cj)))
         = replicate (length cj) (1 / real (length cj))"
  using assms
  by (simp add: calculateAttributionModels_def Let_def weight_with_weight comp_def map_replicate_const)

lemma linear_sum:
  assumes "cj \<noteq> []"
  shows "sum_list (map attribution_weight (linear_model (calculateAttributionModels now (Some cj)))) = 1"
  using assms by (simp add: linear_weights sum_list_replicate)

lemma position_based_weights:
  assumes "cj \<noteq> []"
  shows "map attribution_weight (position_based (calculateAttributionModels now (Some cj)))
         = map (positionWeight (length cj)) [0..<length cj]"
  using assms
  by (simp add: calculateAttributionModels_def Let_def map_index_weights)

lemma upt_2: "[0..<2] = [0, Suc 0]"
  by (simp add: upt_rec)

lemma positionWeight_sum_ge3:
  "sum_list (map (positionWeight (m + 3)) [0..<m + 3]) = 1"
proof -
  have mid: "positionWeight (m + 3) i = (2 / 10) / real (m + 1)" if "i \<in> {1..<m + 2}" for i
    using that by (auto simp: positionWeight_def)
  have "sum_list (map (positionWeight (m + 3)) [0..<m + 3])
        = sum (positionWeight (m + 3)) {0..<m + 3}"
    by (simp add: interv_sum_list_conv_sum_set_nat)
  also have "\<dots> = positionWeight (m + 3) 0 + sum (positionWeight (m + 3)) {1..<m + 2}
                   + positionWeight (m + 3) (m + 2)"
    by (simp add: sum.atLeast_Suc_lessThan numeral_3_eq_3)
  also have "sum (positionWeight (m + 3)) {1..<m + 2} = (\<Sum>i\<in>{1..<m + 2}. (2 / 10) / real (m + 1))"
    by (rule sum.cong) (simp_all add: mid)
  also have "\<dots> = 2 / 10"
    by simp
  finally have "sum_list (map (positionWeight (m + 3)) [0..<m + 3])
        = positionWeight (m + 3) 0 + 2 / 10 + positionWeight (m + 3) (m + 2)" .
  moreover have "positionWeight (m + 3) 0 = 4 / 10"
    by (simp add: positionWeight_def)
  moreover have "positionWeight (m + 3) (m + 2) = 4 / 10"
    by (simp add: positionWeight_def)
  ultimately show ?thesis
    by simp
qed

lemma positionWeight_sum:
  assumes "0 < n"
  shows "sum_list (map (positionWeight n) [0..<n]) = (if n = 2 then 4 / 5 else 1)"
proof -
  have "n = 1 \<or> n = 2 \<or> (\<exists>m. n = m + 3)"
    using assms by presburger
  then consider "n = 1" | "n = 2" | m where "n = m + 3"
    by blast
  then show ?thesis
  proof cases
    case 1 then show ?thesis by (simp add: positionWeight_def)
  next
    case 2
    then show ?thesis by (simp add: upt_2 positionWeight_def)
  next
    case 3 then show ?thesis by (simp add: positionWeight_sum_ge3)
  qed
qed

section \<open>Auxiliary facts about doubles and the time-decay weights\<close>

lemma round_even_int: "round_even (of_int m) = m"
  by (simp add: round_even_def)

lemma round_even_err: "\<bar>of_int (round_even r) - r\<bar> \<le> 1 / 2"
  unfolding round_even_def Let_def by (auto simp: abs_if) linarith+

lemma round_even_small: "0 \<le> r \<Longrightarrow> r \<le> 1 / 2 \<Longrightarrow> round_even r = 0"
proof -
  assume a: "0 \<le> r" "r \<le> 1 / 2"
  then have "\<lfloor>r\<rfloor> = 0" by (simp add: floor_eq_iff)
  with a show ?thesis by (simp add: round_even_def)
qed

lemma round_double_underflow:
  assumes "0 \<le> y" and "y \<le> 2 powr (- 1075)"
  shows "round_double y = 0"
proof (cases "y = 0")
  case True then show ?thesis by (simp add: round_double_def)
next
  case False
  then have pos: "0 < y" using assms(1) by simp
  have "log 2 y \<le> - 1075"
    using pos assms(2) by (simp add: le_powr_iff [symmetric] log_le_iff)
  then have "\<lfloor>log 2 \<bar>y\<bar>\<rfloor> \<le> - 1075"
    using pos by (simp add: floor_le_iff)
  then have e: "ulp_exp y = - 1074"
    by (simp add: ulp_exp_def max_def)
  have "y / 2 powr (- 1074) \<le> 2 powr (- 1075) / 2 powr (- 1074)"
    using assms(2) by (simp add: divide_right_mono)
  also have "\<dots> = 1 / 2"
    by (simp add: powr_diff [symmetric])
  finally have "y / 2 powr (- 1074) \<le> 1 / 2" .
  moreover have "0 \<le> y / 2 powr (- 1074)" using pos by simp
  ultimately have "round_even (y / 2 powr (- 1074)) = 0"
    by (rule round_even_small [rotated])
  then show ?thesis
    by (simp add: round_double_def e)
qed

lemma round_double_exact:
  assumes "x = of_int m * 2 powr of_int k" and "\<bar>m\<bar> < 2 ^ 53" and "- 1074 \<le> k"
  shows "round_double x = x"
proof (cases "m = 0")
  case True with assms(1) show ?thesis by (simp add: round_double_def)
next
  case False
  then have x0: "x \<noteq> 0" using assms(1) by simp
  have absx: "\<bar>x\<bar> = of_int \<bar>m\<bar> * 2 powr of_int k"
    by (simp add: assms(1) abs_mult)
  have "\<bar>x\<bar> < 2 ^ 53 * 2 powr of_int k"
  proof -
    have "(of_int \<bar>m\<bar> :: real) < of_int (2 ^ 53)" using assms(2) by (simp only: of_int_less_iff)
    then show ?thesis unfolding absx by simp
  qed
  also have "\<dots> = 2 powr (of_int (k + 53))"
    by (simp add: powr_add powr_realpow [symmetric])
  finally have "log 2 \<bar>x\<bar> < of_int (k + 53)"
    using x0 by (simp add: log_less_iff)
  then have "\<lfloor>log 2 \<bar>x\<bar>\<rfloor> < k + 53"
    by (simp add: floor_less_iff)
  then have le: "ulp_exp x \<le> k"
    using assms(3) by (simp add: ulp_exp_def)
  define e where "e = ulp_exp x"
  define d where "d = nat (k - e)"
  have "of_int k = of_int e + real d"
    using le by (simp add: d_def e_def)
  then have "2 powr of_int k = 2 powr of_int e * 2 powr real d"
    by (simp only: powr_add)
  also have "2 powr real d = 2 ^ d"
    by (simp add: powr_realpow)
  finally have pk: "(2::real) powr of_int k = 2 powr of_int e * 2 ^ d" .
  have xe: "x = of_int (m * 2 ^ d) * 2 powr of_int e"
    unfolding assms(1) pk by simp
  have pos: "2 powr of_int e \<noteq> (0::real)"
    by simp
  have q: "x / 2 powr of_int e = of_int (m * 2 ^ d)"
    by (subst xe) (simp only: nonzero_mult_div_cancel_right [OF pos])
  have "round_double x = of_int (round_even (x / 2 powr of_int e)) * 2 powr of_int e"
    using x0 by (simp only: round_double_def e_def if_False)
  also have "\<dots> = of_int (m * 2 ^ d) * 2 powr of_int e"
    by (simp only: q round_even_int)
  also have "\<dots> = x"
    by (rule xe [symmetric])
  finally show ?thesis .
qed

lemma round_double_relerr:
  assumes "2 powr (- 1022) \<le> \<bar>x\<bar>"
  shows "\<bar>round_double x - x\<bar> \<le> \<bar>x\<bar> * 2 powr (- 53)"
proof -
  have x0: "x \<noteq> 0" using assms by (auto simp: abs_if split: if_splits)
  have "- 1022 \<le> log 2 \<bar>x\<bar>"
    using assms x0 by (simp add: le_log_iff)
  then have "- 1022 \<le> \<lfloor>log 2 \<bar>x\<bar>\<rfloor>" by (simp add: le_floor_iff)
  then have e: "ulp_exp x = \<lfloor>log 2 \<bar>x\<bar>\<rfloor> - 52" by (simp add: ulp_exp_def)
  let ?q = "(2::real) powr of_int (ulp_exp x)"
  have "of_int \<lfloor>log 2 \<bar>x\<bar>\<rfloor> \<le> log 2 \<bar>x\<bar>" by simp
  then have "2 powr of_int \<lfloor>log 2 \<bar>x\<bar>\<rfloor> \<le> \<bar>x\<bar>"
    using x0 by (simp add: powr_le_iff)
  moreover have "?q = (2::real) powr of_int \<lfloor>log 2 \<bar>x\<bar>\<rfloor> * 2 powr (- 52)"
    by (simp add: e powr_add [symmetric])
  ultimately have q: "?q \<le> \<bar>x\<bar> * 2 powr (- 52)"
    by (simp only: mult_right_mono powr_ge_zero)
  have qpos: "0 < ?q" by simp
  have "(of_int (round_even (x / ?q)) - x / ?q) * ?q = of_int (round_even (x / ?q)) * ?q - x"
    using qpos by (simp add: left_diff_distrib)
  then have "\<bar>round_double x - x\<bar> = \<bar>(of_int (round_even (x / ?q)) - x / ?q) * ?q\<bar>"
    using x0 by (simp only: round_double_def if_False)
  also have "\<dots> = \<bar>of_int (round_even (x / ?q)) - x / ?q\<bar> * ?q"
    using qpos by (simp only: abs_mult abs_of_pos)
  also have "\<dots> \<le> (1 / 2) * ?q"
    by (intro mult_right_mono round_even_err) simp
  also have "\<dots> \<le> (1 / 2) * (\<bar>x\<bar> * 2 powr (- 52))"
    using q by simp
  also have "\<dots> = \<bar>x\<bar> * (2 powr (- 1) * 2 powr (- 52))"
    by (simp add: powr_minus)
  also have "\<dots> = \<bar>x\<bar> * 2 powr (- 53)"
    by (simp only: powr_add [symmetric]) simp
  finally show ?thesis .
qed

lemma to_double_exact:
  assumes "x = of_int m * 2 powr of_int k" and "\<bar>m\<bar> < 2 ^ 53" and "- 1074 \<le> k"
    and "\<bar>x\<bar> < 2 ^ 1024"
  shows "to_double x = Fin x"
  using assms(4) by (simp add: to_double_def round_double_exact [OF assms(1-3)] Let_def abs_if
        split: if_splits)

lemma to_double_zero: "to_double 0 = Fin 0"
  by (simp add: to_double_def round_double_def)

lemma to_double_one: "to_double 1 = Fin 1"
  by (rule to_double_exact [of _ 1 0]) simp_all

lemma to_double_half: "to_double (1 / 2) = Fin (1 / 2)"
  by (rule to_double_exact [of _ 1 "- 1"]) (simp_all add: powr_minus)

lemma to_double_three_halves: "to_double (3 / 2) = Fin (3 / 2)"
  by (rule to_double_exact [of _ 3 "- 1"]) (simp_all add: powr_minus)

lemma round_double_minus_one: "round_double (- 1) = - 1"
  by (rule round_double_exact [of _ "- 1" 0]) simp_all

lemma js_pow2_zero: "js_pow2 0 = Fin 1"
  by (simp add: js_pow2_def to_double_one)

lemma js_pow2_minus_one: "js_pow2 (- 1) = Fin (1 / 2)"
  by (simp add: js_pow2_def powr_minus to_double_half)

lemma js_pow2_underflow:
  assumes "x \<le> - 1075"
  shows "js_pow2 x = Fin 0"
proof -
  have "2 powr x \<le> 2 powr (- 1075)"
    using assms by simp
  then have "round_double (2 powr x) = 0"
    by (intro round_double_underflow) simp_all
  then show ?thesis
    by (simp add: js_pow2_def to_double_def)
qed

lemma round_double_far_negative:
  assumes "x \<le> - 1100"
  shows "round_double x \<le> - 1075"
proof -
  have ax: "\<bar>x\<bar> = - x" using assms by simp
  have "2 powr (- 1022) \<le> (1::real)"
    by (simp add: powr_minus powr_realpow [symmetric] field_simps)
  then have "2 powr (- 1022) \<le> \<bar>x\<bar>"
    using assms by (simp add: ax)
  then have "\<bar>round_double x - x\<bar> \<le> \<bar>x\<bar> * 2 powr (- 53)"
    by (rule round_double_relerr)
  moreover have "2 powr (- 53) \<le> (1 / 100 :: real)"
    by (simp add: powr_minus powr_realpow [symmetric] field_simps)
  then have "\<bar>x\<bar> * 2 powr (- 53) \<le> \<bar>x\<bar> * (1 / 100)"
    by (intro mult_left_mono) simp_all
  ultimately have "\<bar>round_double x - x\<bar> \<le> - x * (1 / 100)"
    by (simp add: ax)
  then show ?thesis
    using assms by (simp add: abs_if split: if_splits)
qed

lemma to_double_normal:
  assumes "2 powr (- 1022) \<le> \<bar>x\<bar>" and "\<bar>x\<bar> \<le> 1"
  shows "to_double x = Fin (round_double x)"
proof -
  have err: "\<bar>round_double x - x\<bar> \<le> \<bar>x\<bar> * 2 powr (- 53)"
    using assms(1) by (rule round_double_relerr)
  have "2 powr (- 53) \<le> (1::real)"
    by (simp add: powr_minus powr_realpow [symmetric] field_simps)
  then have "\<bar>x\<bar> * 2 powr (- 53) \<le> \<bar>x\<bar> * 1"
    by (intro mult_left_mono) simp_all
  with err assms(2) have "\<bar>round_double x - x\<bar> \<le> 1"
    by simp
  with assms(2) have small: "\<bar>round_double x\<bar> \<le> 2"
    by (simp add: abs_if split: if_splits)
  have "(2::real) ^ 1 < 2 ^ 1024"
    by (rule power_strict_increasing) simp_all
  then have big: "(2::real) < 2 ^ 1024"
    by simp
  have "\<not> 2 ^ 1024 \<le> round_double x" "\<not> round_double x \<le> - (2 ^ 1024)"
    using small big by (simp_all add: abs_if split: if_splits)
  then show ?thesis
    by (simp only: to_double_def Let_def if_False)
qed

lemma small_lower: "2 powr (- 1022) \<le> (1 / 3 :: real)"
proof -
  have "2 powr (- 1022) \<le> (2::real) powr (- 2)"
    by (rule powr_mono) simp_all
  also have "\<dots> \<le> 1 / 3"
    by (simp add: powr_minus powr_realpow [symmetric])
  finally show ?thesis .
qed

lemma thirds_within_tolerance: "\<bar>round_double (2 / 3) + round_double (1 / 3) - 1\<bar> \<le> 1 / 10 ^ 9"
proof -
  have a: "\<bar>round_double (1 / 3) - 1 / 3\<bar> \<le> \<bar>1 / 3\<bar> * 2 powr (- 53)"
    using small_lower by (intro round_double_relerr) simp
  have b: "\<bar>round_double (2 / 3) - 2 / 3\<bar> \<le> \<bar>2 / 3\<bar> * 2 powr (- 53)"
    using small_lower by (intro round_double_relerr) simp
  have "2 powr (- 53) \<le> (2::real) powr (- 30)"
    by (rule powr_mono) simp_all
  also have "\<dots> \<le> 1 / 10 ^ 9"
    by (simp add: powr_minus powr_realpow [symmetric] field_simps)
  finally have c: "2 powr (- 53) \<le> (1 / 10 ^ 9 :: real)" .
  from a b c show ?thesis
    by (simp add: abs_if split: if_splits)
qed

lemma raw_weight_now:
  assumes "timestamp tp = now"
  shows "timeDecayWeights now [tp] = [Fin 1]"
  using assms by (simp add: timeDecayWeights_def round_double_def js_pow2_zero)

lemma raw_weight_half_life:
  assumes "timestamp tp = now - 7 * 24 * 60 * 60 * 1000"
  shows "timeDecayWeights now [tp] = [Fin (1 / 2)]"
proof -
  have "- real_of_int (now - timestamp tp) / halfLife = - 1"
    using assms by (simp add: halfLife_def)
  then show ?thesis
    by (simp only: timeDecayWeights_def Let_def list.map round_double_minus_one js_pow2_minus_one)
qed

lemma raw_weight_underflow:
  assumes "1100 * (7 * 24 * 60 * 60 * 1000) \<le> now - timestamp tp"
  shows "timeDecayWeights now [tp] = [Fin 0]"
proof -
  have "1100 * halfLife \<le> real_of_int (now - timestamp tp)"
  proof -
    have "real_of_int (1100 * (7 * 24 * 60 * 60 * 1000)) \<le> real_of_int (now - timestamp tp)"
      using assms by (simp only: of_int_le_iff)
    then show ?thesis by (simp add: halfLife_def)
  qed
  then have "- real_of_int (now - timestamp tp) / halfLife \<le> - 1100"
    by (simp add: halfLife_def field_simps)
  then have "round_double (- real_of_int (now - timestamp tp) / halfLife) \<le> - 1075"
    by (rule round_double_far_negative)
  then have "js_pow2 (round_double (- real_of_int (now - timestamp tp) / halfLife)) = Fin 0"
    by (rule js_pow2_underflow)
  then show ?thesis
    by (simp only: timeDecayWeights_def Let_def list.map)
qed

lemma timeDecayWeights_map:
  "timeDecayWeights now cj = map (\<lambda>tp. hd (timeDecayWeights now [tp])) cj"
  by (simp add: timeDecayWeights_def)

lemma timeDecayWeights_underflow:
  assumes "\<forall>tp\<in>set cj. 1100 * (7 * 24 * 60 * 60 * 1000) \<le> now - timestamp tp"
  shows "timeDecayWeights now cj = replicate (length cj) (Fin 0)"
proof -
  have "timeDecayWeights now cj = map (\<lambda>tp. Fin 0) cj"
    unfolding timeDecayWeights_map [of now cj]
    using assms by (intro map_cong refl) (simp add: raw_weight_underflow)
  then show ?thesis
    by (simp add: map_replicate_const)
qed

lemma reduce_sum_zeros: "reduce_sum (replicate n (Fin 0)) = Fin 0"
proof -
  have "foldl (\<lambda>sum weight. js_add sum weight) (Fin 0) (replicate n (Fin 0)) = Fin 0"
    by (induction n) (simp_all add: to_double_zero)
  then show ?thesis by (simp add: reduce_sum_def)
qed

lemma time_decay_weights:
  assumes "cj \<noteq> []"
  shows "map attribution_weight (time_decay (calculateAttributionModels now (Some cj)))
         = map (\<lambda>w. js_div w (reduce_sum (timeDecayWeights now cj))) (timeDecayWeights now cj)"
  using assms
  by (auto simp: calculateAttributionModels_def Let_def map_index_weights timeDecayWeights_length
           intro!: nth_equalityI)

lemma time_decay_underflow:
  assumes "cj \<noteq> []"
    and "\<forall>tp\<in>set cj. 1100 * (7 * 24 * 60 * 60 * 1000) \<le> now - timestamp tp"
  shows "map attribution_weight (time_decay (calculateAttributionModels now (Some cj)))
         = replicate (length cj) NaN"
  by (simp add: time_decay_weights [OF assms(1)] timeDecayWeights_underflow [OF assms(2)]
        reduce_sum_zeros map_replicate_const)

lemma clock_free_parts:
  "first_click (calculateAttributionModels now cj) = first_click (calculateAttributionModels now' cj)"
  "last_click (calculateAttributionModels now cj) = last_click (calculateAttributionModels now' cj)"
  "linear_model (calculateAttributionModels now cj) = linear_model (calculateAttributionModels now' cj)"
  "position_based (calculateAttributionModels now cj)
     = position_based (calculateAttributionModels now' cj)"
  "map touchpoint.truncate (time_decay (calculateAttributionModels now cj))
     = map touchpoint.truncate (time_decay (calculateAttributionModels now' cj))"
  by (simp_all add: calculateAttributionModels_def Let_def map_index_truncate no_attribution_def
        split: option.splits)

lemma day0_day7_weights:
  assumes "timestamp tp0 = now" and "timestamp tp7 = now - 7 * 24 * 60 * 60 * 1000"
  shows "timeDecayWeights now [tp0, tp7] = [Fin 1, Fin (1 / 2)]"
    and "map attribution_weight (time_decay (calculateAttributionModels now (Some [tp0, tp7])))
         = [Fin (round_double (2 / 3)), Fin (round_double (1 / 3))]"
proof -
  have "timeDecayWeights now [tp0, tp7] = timeDecayWeights now [tp0] @ timeDecayWeights now [tp7]"
    by (simp add: timeDecayWeights_def)
  then show raw: "timeDecayWeights now [tp0, tp7] = [Fin 1, Fin (1 / 2)]"
    by (simp only: raw_weight_now [OF assms(1)] raw_weight_half_life [OF assms(2)] append.simps)
  have total: "reduce_sum [Fin 1, Fin (1 / 2)] = Fin (3 / 2)"
    by (simp add: reduce_sum_def to_double_one to_double_three_halves)
  have q1: "to_double (2 / 3) = Fin (round_double (2 / 3))"
    using small_lower by (intro to_double_normal) simp_all
  have q2: "to_double (1 / 3) = Fin (round_double (1 / 3))"
    using small_lower by (intro to_double_normal) simp_all
  show "map attribution_weight (time_decay (calculateAttributionModels now (Some [tp0, tp7])))
         = [Fin (round_double (2 / 3)), Fin (round_double (1 / 3))]"
    by (simp add: time_decay_weights raw total q1 q2)
qed

lemma round_double_one_plus:
  assumes "0 \<le> d" and "d < 2 powr (- 53)"
  shows "round_double (1 + d) = 1"
proof -
  have small: "2 powr (- 53) \<le> (1::real)"
    by (simp add: powr_minus powr_realpow [symmetric] field_simps)
  have "0 \<le> log 2 (1 + d)" "log 2 (1 + d) < 1"
    using assms small by (simp_all add: log_less_iff)
  then have "\<lfloor>log 2 \<bar>1 + d\<bar>\<rfloor> = 0"
    using assms(1) by (simp add: floor_eq_iff)
  then have e: "ulp_exp (1 + d) = - 52"
    by (simp add: ulp_exp_def)
  have p: "(2::real) powr (- 52) = 1 / 2 ^ 52"
    by (simp add: powr_minus powr_realpow [symmetric] field_simps)
  have "d * 2 ^ 52 < 2 powr (- 53) * 2 ^ 52"
    using assms(2) by simp
  also have "\<dots> = 1 / 2"
    by (simp add: powr_minus powr_realpow [symmetric] field_simps)
  finally have frac: "d * 2 ^ 52 < 1 / 2" .
  have q: "(1 + d) / 2 powr (- 52) = of_int (2 ^ 52) + d * 2 ^ 52"
    by (simp add: p field_simps)
  have "\<lfloor>of_int (2 ^ 52) + d * 2 ^ 52\<rfloor> = 2 ^ 52"
    using assms(1) frac by (simp add: floor_eq_iff)
  then have "round_even (of_int (2 ^ 52) + d * 2 ^ 52) = 2 ^ 52"
    using frac by (simp add: round_even_def)
  then have "round_double (1 + d) = of_int (2 ^ 52) * 2 powr (- 52)"
    using assms(1) by (simp add: round_double_def e q)
  then show ?thesis
    by (simp add: p)
qed

lemma pow_600: "js_pow2 (- 600) = Fin (2 powr (- 600))" "to_double (2 powr (- 600)) = Fin (2 powr (- 600))"
proof -
  have lt: "(2::real) powr (- 600) < 2 ^ 1024"
  proof -
    have "(2::real) powr (- 600) \<le> 2 powr 0" by (rule powr_mono) simp_all
    also have "\<dots> < 2 ^ 1024" by simp
    finally show ?thesis .
  qed
  show "to_double (2 powr (- 600)) = Fin (2 powr (- 600))"
    using lt by (intro to_double_exact [of _ 1 "- 600"]) simp_all
  then show "js_pow2 (- 600) = Fin (2 powr (- 600))"
    by (simp add: js_pow2_def)
qed

lemma round_double_zero: "round_double 0 = 0"
  by (simp add: round_double_def)

lemma round_double_600: "round_double (- 600) = - 600" "round_double (- 1200) = - 1200"
  by (rule round_double_exact [of _ "- 600" 0], simp_all)
     (rule round_double_exact [of _ "- 1200" 0], simp_all)

lemma one_plus_tiny: "to_double (2 powr (- 600) + 1) = Fin 1"
proof -
  have "(2::real) powr (- 600) < 2 powr (- 53)"
    by (rule powr_less_mono) simp_all
  then have "round_double (1 + 2 powr (- 600)) = 1"
    by (intro round_double_one_plus) simp_all
  then show ?thesis
    by (simp add: to_double_def add.commute)
qed

lemma partial_underflow_weights:
  "map attribution_weight
     (time_decay (calculateAttributionModels 362880000000 (Some [tp_epoch, tp_600])))
     = [Fin (2 powr (- 600)), Fin 1]"
  "map attribution_weight
     (time_decay (calculateAttributionModels 725760000000 (Some [tp_epoch, tp_600])))
     = [Fin 0, Fin 1]"
proof -
  have raw1: "timeDecayWeights 362880000000 [tp_epoch, tp_600] = [Fin (2 powr (- 600)), Fin 1]"
    by (simp add: timeDecayWeights_def tp_epoch_def tp_600_def halfLife_def round_double_600
          pow_600 js_pow2_zero round_double_zero)
  have raw2: "timeDecayWeights 725760000000 [tp_epoch, tp_600] = [Fin 0, Fin (2 powr (- 600))]"
    by (simp add: timeDecayWeights_def tp_epoch_def tp_600_def halfLife_def round_double_600
          pow_600 js_pow2_underflow)
  have total1: "reduce_sum [Fin (2 powr (- 600)), Fin 1] = Fin 1"
    by (simp add: reduce_sum_def pow_600 one_plus_tiny)
  have total2: "reduce_sum [Fin 0, Fin (2 powr (- 600))] = Fin (2 powr (- 600))"
    by (simp add: reduce_sum_def to_double_zero pow_600)
  show "map attribution_weight
     (time_decay (calculateAttributionModels 362880000000 (Some [tp_epoch, tp_600])))
     = [Fin (2 powr (- 600)), Fin 1]"
    by (simp add: time_decay_weights raw1 total1 pow_600 to_double_one)
  show "map attribution_weight
     (time_decay (calculateAttributionModels 725760000000 (Some [tp_epoch, tp_600])))
     = [Fin 0, Fin 1]"
    by (simp add: time_decay_weights raw2 total2 to_double_zero to_double_one)
qed

section \<open>Auxiliary facts about the funnel\<close>

lemma visitors_rated: "visitors (rated fd i) = visitors (fd ! i)"
  by (simp add: rated_def)

lemma rateStep_prefix:
  assumes "k < length fd"
  shows "rateStep k (map (rated fd) [0..<k] @ drop k fd) = map (rated fd) [0..<Suc k] @ drop (Suc k) fd"
proof -
  let ?L = "map (rated fd) [0..<k] @ drop k fd"
  have len: "length ?L = length fd" using assms by simp
  have atk: "?L ! k = fd ! k" using assms by (simp add: nth_append)
  have below: "?L ! j = rated fd j" if "j < k" for j using that by (simp add: nth_append)
  have upd: "?L[k := x] = map (rated fd) [0..<k] @ x # drop (Suc k) fd" for x
    using assms by (simp add: list_update_append Cons_nth_drop_Suc [symmetric])
  show ?thesis
  proof (cases "k = 0")
    case True
    with assms show ?thesis
      by (cases fd) (simp_all add: rateStep_def rated_def)
  next
    case False
    then have k0: "0 < k" by simp
    have v0: "visitors (?L ! 0) = visitors (fd ! 0)"
      using below [OF k0] by (simp add: visitors_rated)
    have vp: "visitors (?L ! (k - 1)) = visitors (fd ! (k - 1))"
      using below [of "k - 1"] k0 by (simp add: visitors_rated)
    have "rateStep k ?L = ?L[k := rated fd k]"
      using k0 len assms atk v0 vp
      by (simp add: rateStep_def Let_def rated_def del: upt_Suc nth_append)
    then show ?thesis
      by (simp add: upd)
  qed
qed

lemma fold_rateStep:
  "k \<le> length fd \<Longrightarrow> fold rateStep [0..<k] fd = map (rated fd) [0..<k] @ drop k fd"
proof (induction k)
  case 0
  then show ?case by simp
next
  case (Suc k)
  then have "fold rateStep [0..<Suc k] fd = rateStep k (map (rated fd) [0..<k] @ drop k fd)"
    by simp
  also have "\<dots> = map (rated fd) [0..<Suc k] @ drop (Suc k) fd"
    using Suc.prems by (intro rateStep_prefix) simp
  finally show ?case .
qed

lemma calculateRates_rated: "calculateRates fd = map (rated fd) [0..<length fd]"
  by (simp add: calculateRates_def fold_rateStep)

lemma upt_4: "[0..<4] = [0, Suc 0, 2, 3]"
  by (simp add: upt_rec)

lemma groupBySession_card:
  "length (groupBySession events pattern startDate endDate)
   = card (ev_sessionId ` {e \<in> set events. ev_eventName e = pattern \<and> startDate \<le> ev_createdAt e \<and> ev_createdAt e \<le> endDate})"
  by (simp add: groupBySession_def length_remdups_card_conv)

section \<open>Claims about the attribution calculator\<close>

text \<open>
  C1. Claimed: for every non-empty journey the weights of every model sum to 1 within
  1e-9. The linear weights do (\<open>linear_sum\<close>), and the position-based ones do for
  every length other than 2 (\<open>positionWeight_sum\<close>). On a journey of two touchpoints
  the position-based weights are 0.4 and 0.4: they sum to 0.8, off by 0.2.
\<close>

theorem position_based_two_touchpoints_sum:
  "map attribution_weight
     (position_based (calculateAttributionModels now (Some [tp_search, tp_social]))) = [4 / 10, 4 / 10]
   \<and> sum_list (map attribution_weight
        (position_based (calculateAttributionModels now (Some [tp_search, tp_social])))) = 8 / 10
   \<and> \<not> \<bar>sum_list (map attribution_weight
          (position_based (calculateAttributionModels now (Some [tp_search, tp_social])))) - 1\<bar>
        \<le> 1 / 10 ^ 9"
  by (simp add: position_based_weights upt_2 positionWeight_def)

text \<open>
  C2. The position-based weight of touchpoint \<open>i\<close> in a journey of \<open>N\<close> touchpoints is
  1 when \<open>N = 1\<close>, 0.4 for the first and the last touchpoint when \<open>N \<ge> 2\<close>, and
  \<open>0.2 / max(1, N - 2)\<close> for the touchpoints in between; for \<open>N = 2\<close> the weights are
  exactly 0.4 and 0.4, summing to 0.8.
\<close>

theorem position_based_weight_by_index:
  assumes "cj \<noteq> []" and "i < length cj"
  shows "attribution_weight (position_based (calculateAttributionModels now (Some cj)) ! i) =
           (if length cj = 1 then 1
            else if i = 0 \<or> i = length cj - 1 then 4 / 10
            else (2 / 10) / real_of_int (max 1 (int (length cj) - 2)))
       \<and> (length cj = 2 \<longrightarrow>
            map attribution_weight (position_based (calculateAttributionModels now (Some cj)))
              = [4 / 10, 4 / 10]
            \<and> sum_list (map attribution_weight
                 (position_based (calculateAttributionModels now (Some cj)))) = 8 / 10)"
proof -
  let ?pb = "position_based (calculateAttributionModels now (Some cj))"
  have ws: "map attribution_weight ?pb = map (positionWeight (length cj)) [0..<length cj]"
    by (rule position_based_weights [OF assms(1)])
  have len: "length ?pb = length cj"
    using arg_cong [OF ws, of length] by simp
  have "attribution_weight (?pb ! i) = map attribution_weight ?pb ! i"
    using assms(2) len by simp
  also have "\<dots> = positionWeight (length cj) i"
    using assms(2) by (simp add: ws)
  also have "\<dots> = (if length cj = 1 then 1
            else if i = 0 \<or> i = length cj - 1 then 4 / 10
            else (2 / 10) / real_of_int (max 1 (int (length cj) - 2)))"
    using assms(2) by (auto simp: positionWeight_def max_def)
  finally have at_i: "attribution_weight (?pb ! i) =
           (if length cj = 1 then 1
            else if i = 0 \<or> i = length cj - 1 then 4 / 10
            else (2 / 10) / real_of_int (max 1 (int (length cj) - 2)))" .
  have two: "length cj = 2 \<longrightarrow>
      map attribution_weight ?pb = [4 / 10, 4 / 10] \<and> sum_list (map attribution_weight ?pb) = 8 / 10"
    by (simp add: ws upt_2 positionWeight_def)
  from at_i two show ?thesis by simp
qed

theorem position_based_weight_by_index_witness:
  "[tp_search] \<noteq> [] \<and> (0::nat) < length [tp_search]
   \<and> attribution_weight
       (position_based (calculateAttributionModels 5000 (Some [tp_search])) ! 0) = 1
   \<and> [tp_search, tp_social] \<noteq> [] \<and> (1::nat) < length [tp_search, tp_social]
   \<and> length [tp_search, tp_social] = 2
   \<and> attribution_weight
       (position_based (calculateAttributionModels 5000 (Some [tp_search, tp_social])) ! 1) = 4 / 10
   \<and> map attribution_weight
       (position_based (calculateAttributionModels 5000 (Some [tp_search, tp_social]))) = [4 / 10, 4 / 10]
   \<and> sum_list (map attribution_weight
       (position_based (calculateAttributionModels 5000 (Some [tp_search, tp_social])))) = 8 / 10
   \<and> [tp_search, tp_social, tp_email, tp_day0] \<noteq> []
   \<and> (2::nat) < length [tp_search, tp_social, tp_email, tp_day0]
   \<and> attribution_weight
       (position_based (calculateAttributionModels 5000
          (Some [tp_search, tp_social, tp_email, tp_day0])) ! 2) = 1 / 10"
  using position_based_weight_by_index [of "[tp_search]" 0 5000]
    position_based_weight_by_index [of "[tp_search, tp_social]" 1 5000]
    position_based_weight_by_index [of "[tp_search, tp_social, tp_email, tp_day0]" 2 5000]
  by simp

text \<open>
  C3. Claimed: for every non-empty journey the raw weights \<open>2^(-\<Delta>t / H)\<close> are
  normalised to sum to 1. A raw weight is a double, and \<open>Math.pow\<close> underflows to 0:
  for the journey with timestamps 1000 and 2000 at the clock reading 1790000000000
  both raw weights are 0 and their total is 0. The division by the total has no guard
  for 0, so both weights are \<open>0 / 0\<close>, which is \<open>NaN\<close>.
\<close>

theorem time_decay_underflow_nan:
  "timeDecayWeights 1790000000000 [tp_search, tp_social] = [Fin 0, Fin 0]
   \<and> reduce_sum (timeDecayWeights 1790000000000 [tp_search, tp_social]) = Fin 0
   \<and> map attribution_weight
        (time_decay (calculateAttributionModels 1790000000000 (Some [tp_search, tp_social])))
       = [NaN, NaN]"
proof -
  have old: "\<forall>tp\<in>set [tp_search, tp_social].
      1100 * (7 * 24 * 60 * 60 * 1000) \<le> 1790000000000 - timestamp tp"
    by (simp add: tp_search_def tp_social_def)
  have raw: "timeDecayWeights 1790000000000 [tp_search, tp_social] = [Fin 0, Fin 0]"
    using timeDecayWeights_underflow [OF old] by (simp add: numeral_2_eq_2)
  have total: "reduce_sum [Fin 0, Fin 0] = Fin 0"
    using reduce_sum_zeros [of 2] by (simp add: numeral_2_eq_2)
  have "map attribution_weight
        (time_decay (calculateAttributionModels 1790000000000 (Some [tp_search, tp_social])))
       = [NaN, NaN]"
    using time_decay_underflow [OF _ old] by (simp add: numeral_2_eq_2)
  with raw total show ?thesis
    by simp
qed

text \<open>
  The rest of the time-decay computation. For a non-empty journey the weight of a
  touchpoint is its raw weight divided by the total of the raw weights, in double
  arithmetic; the raw weight is \<open>Math.pow(2, -\<Delta>t / H)\<close> with \<open>\<Delta>t\<close> the time from the
  touchpoint's timestamp to the clock reading of the call and \<open>H\<close> seven days in
  milliseconds. A touchpoint at the clock reading has raw weight exactly 1 and one
  seven days earlier exactly 1/2; such a pair gets the doubles nearest to 2/3 and
  1/3, which sum to 1 within 1e-9. When every touchpoint lies 1100 half-lives or more
  before the clock reading, every raw weight is 0 and every weight is \<open>NaN\<close>.
\<close>

theorem time_decay_half_life:
  assumes "cj \<noteq> []"
  shows "map attribution_weight (time_decay (calculateAttributionModels now (Some cj)))
           = map (\<lambda>tp. js_div
                   (js_pow2 (round_double
                      (- real_of_int (now - timestamp tp) / (7 * 24 * 60 * 60 * 1000))))
                   (foldl js_add (Fin 0)
                      (map (\<lambda>tp'. js_pow2 (round_double
                         (- real_of_int (now - timestamp tp') / (7 * 24 * 60 * 60 * 1000)))) cj)))
               cj
       \<and> (timestamp tp0 = now \<longrightarrow> timeDecayWeights now [tp0] = [Fin 1])
       \<and> (timestamp tp0 = now \<and> timestamp tp7 = now - 7 * 24 * 60 * 60 * 1000 \<longrightarrow>
            timeDecayWeights now [tp0, tp7] = [Fin 1, Fin (1 / 2)]
            \<and> map attribution_weight
                 (time_decay (calculateAttributionModels now (Some [tp0, tp7])))
                = [Fin (round_double (2 / 3)), Fin (round_double (1 / 3))]
            \<and> \<bar>round_double (2 / 3) + round_double (1 / 3) - 1\<bar> \<le> 1 / 10 ^ 9)
       \<and> ((\<forall>tp\<in>set cj. 1100 * (7 * 24 * 60 * 60 * 1000) \<le> now - timestamp tp) \<longrightarrow>
            timeDecayWeights now cj = replicate (length cj) (Fin 0)
            \<and> map attribution_weight (time_decay (calculateAttributionModels now (Some cj)))
                = replicate (length cj) NaN)"
proof -
  have ws: "map attribution_weight (time_decay (calculateAttributionModels now (Some cj)))
           = map (\<lambda>tp. js_div
                   (js_pow2 (round_double
                      (- real_of_int (now - timestamp tp) / (7 * 24 * 60 * 60 * 1000))))
                   (foldl js_add (Fin 0)
                      (map (\<lambda>tp'. js_pow2 (round_double
                         (- real_of_int (now - timestamp tp') / (7 * 24 * 60 * 60 * 1000)))) cj)))
               cj"
    by (simp only: time_decay_weights [OF assms] reduce_sum_def timeDecayWeights_def Let_def
          map_map comp_def halfLife_def)
  have one: "timestamp tp0 = now \<longrightarrow> timeDecayWeights now [tp0] = [Fin 1]"
    by (simp add: raw_weight_now)
  have pair: "timestamp tp0 = now \<and> timestamp tp7 = now - 7 * 24 * 60 * 60 * 1000 \<longrightarrow>
            timeDecayWeights now [tp0, tp7] = [Fin 1, Fin (1 / 2)]
            \<and> map attribution_weight
                 (time_decay (calculateAttributionModels now (Some [tp0, tp7])))
                = [Fin (round_double (2 / 3)), Fin (round_double (1 / 3))]
            \<and> \<bar>round_double (2 / 3) + round_double (1 / 3) - 1\<bar> \<le> 1 / 10 ^ 9"
    using day0_day7_weights [of tp0 now tp7] thirds_within_tolerance by blast
  have old: "(\<forall>tp\<in>set cj. 1100 * (7 * 24 * 60 * 60 * 1000) \<le> now - timestamp tp) \<longrightarrow>
            timeDecayWeights now cj = replicate (length cj) (Fin 0)
            \<and> map attribution_weight (time_decay (calculateAttributionModels now (Some cj)))
                = replicate (length cj) NaN"
    using timeDecayWeights_underflow [of cj now] time_decay_underflow [OF assms, of now] by blast
  from ws one pair old show ?thesis
    by (intro conjI)
qed

theorem time_decay_half_life_example:
  "[tp_day0, tp_day7] \<noteq> []
   \<and> timestamp tp_day0 = 1209600000
   \<and> timestamp tp_day7 = 1209600000 - 7 * 24 * 60 * 60 * 1000
   \<and> timeDecayWeights 1209600000 [tp_day0] = [Fin 1]
   \<and> timeDecayWeights 1209600000 [tp_day0, tp_day7] = [Fin 1, Fin (1 / 2)]
   \<and> map attribution_weight
       (time_decay (calculateAttributionModels 1209600000 (Some [tp_day0, tp_day7])))
       = [Fin (round_double (2 / 3)), Fin (round_double (1 / 3))]
   \<and> \<bar>round_double (2 / 3) + round_double (1 / 3) - 1\<bar> \<le> 1 / 10 ^ 9
   \<and> [tp_search, tp_social] \<noteq> []
   \<and> 1100 * (7 * 24 * 60 * 60 * 1000) \<le> 1790000000000 - timestamp tp_search
   \<and> 1100 * (7 * 24 * 60 * 60 * 1000) \<le> 1790000000000 - timestamp tp_social
   \<and> map attribution_weight
       (time_decay (calculateAttributionModels 1790000000000 (Some [tp_search, tp_social])))
       = replicate (length [tp_search, tp_social]) NaN"
proof -
  have h: "[tp_day0, tp_day7] \<noteq> []" by simp
  have t0: "timestamp tp_day0 = 1209600000" by (simp add: tp_day0_def)
  have t7: "timestamp tp_day7 = 1209600000 - 7 * 24 * 60 * 60 * 1000" by (simp add: tp_day7_def)
  have h': "[tp_search, tp_social] \<noteq> []" by simp
  have old: "\<forall>tp\<in>set [tp_search, tp_social].
      1100 * (7 * 24 * 60 * 60 * 1000) \<le> 1790000000000 - timestamp tp"
    by (simp add: tp_search_def tp_social_def)
  note near = time_decay_half_life [OF h, of 1209600000 tp_day0 tp_day7]
  note far = time_decay_half_life [OF h', of 1790000000000 tp_day0 tp_day7]
  note one = near [THEN conjunct2, THEN conjunct1, THEN mp, OF t0]
  note pair = near [THEN conjunct2, THEN conjunct2, THEN conjunct1, THEN mp, OF conjI [OF t0 t7]]
  note nan = far [THEN conjunct2, THEN conjunct2, THEN conjunct2, THEN mp, OF old, THEN conjunct2]
  have o1: "1100 * (7 * 24 * 60 * 60 * 1000) \<le> 1790000000000 - timestamp tp_search"
    and o2: "1100 * (7 * 24 * 60 * 60 * 1000) \<le> 1790000000000 - timestamp tp_social"
    using old by simp_all
  show ?thesis
    using h t0 t7 one pair h' o1 o2 nan by (intro conjI) blast+
qed

text \<open>
  C6. Claimed: two runs of the calculator on the same journey give identical results,
  whenever they run. The function reads the clock (\<open>Date.now()\<close>) for the time-decay
  weights, and they change with it. The journey with timestamps 0 and 362880000000
  gets the weights \<open>2^-600\<close> and 1 at the clock reading 362880000000, and 0 and 1 at
  the clock reading 725760000000. The journey of the single touchpoint with timestamp
  2000 gets the weight 1 at the clock reading 2000 and \<open>NaN\<close> at the clock reading
  1790000000000.
\<close>

theorem attribution_clock_counterexample:
  "map attribution_weight
     (time_decay (calculateAttributionModels 362880000000 (Some [tp_epoch, tp_600])))
     = [Fin (2 powr (- 600)), Fin 1]
   \<and> map attribution_weight
        (time_decay (calculateAttributionModels 725760000000 (Some [tp_epoch, tp_600])))
       = [Fin 0, Fin 1]
   \<and> calculateAttributionModels 362880000000 (Some [tp_epoch, tp_600])
       \<noteq> calculateAttributionModels 725760000000 (Some [tp_epoch, tp_600])
   \<and> map attribution_weight (time_decay (calculateAttributionModels 2000 (Some [tp_social])))
       = [Fin 1]
   \<and> map attribution_weight
        (time_decay (calculateAttributionModels 1790000000000 (Some [tp_social]))) = [NaN]
   \<and> calculateAttributionModels 2000 (Some [tp_social])
       \<noteq> calculateAttributionModels 1790000000000 (Some [tp_social])"
proof -
  note c = partial_underflow_weights
  have "(2::real) powr (- 600) \<noteq> 0"
    by simp
  with c have d: "calculateAttributionModels 362880000000 (Some [tp_epoch, tp_600])
       \<noteq> calculateAttributionModels 725760000000 (Some [tp_epoch, tp_600])"
    by auto
  have "timeDecayWeights 2000 [tp_social] = [Fin 1]"
    by (rule raw_weight_now) (simp add: tp_social_def)
  then have a: "map attribution_weight (time_decay (calculateAttributionModels 2000 (Some [tp_social])))
     = [Fin 1]"
    by (simp add: time_decay_weights reduce_sum_def to_double_one)
  have old: "\<forall>tp\<in>set [tp_social]. 1100 * (7 * 24 * 60 * 60 * 1000) \<le> 1790000000000 - timestamp tp"
    by (simp add: tp_social_def)
  have b: "map attribution_weight
        (time_decay (calculateAttributionModels 1790000000000 (Some [tp_social]))) = [NaN]"
    using time_decay_underflow [OF _ old] by simp
  from a b have e: "calculateAttributionModels 2000 (Some [tp_social])
       \<noteq> calculateAttributionModels 1790000000000 (Some [tp_social])"
    by auto
  from c d a b e show ?thesis
    by (intro conjI)
qed

text \<open>
  C6, as the function has it. The result is a function of the journey and of the clock
  reading of the run. The first click, the last click, the linear list, the
  position-based list and the touchpoints of the time-decay list are the same for
  every clock reading; only the time-decay weights depend on it.
\<close>

theorem attribution_clock_free_parts:
  "first_click (calculateAttributionModels now cj) = first_click (calculateAttributionModels now' cj)
   \<and> last_click (calculateAttributionModels now cj) = last_click (calculateAttributionModels now' cj)
   \<and> linear_model (calculateAttributionModels now cj)
       = linear_model (calculateAttributionModels now' cj)
   \<and> position_based (calculateAttributionModels now cj)
       = position_based (calculateAttributionModels now' cj)
   \<and> map touchpoint.truncate (time_decay (calculateAttributionModels now cj))
       = map touchpoint.truncate (time_decay (calculateAttributionModels now' cj))"
  using clock_free_parts [of now cj now'] by (intro conjI)

text \<open>
  C8. For the empty journey, and for a missing one, the calculator returns no first
  click, no last click and three empty weight lists. The function has no failing
  branch: it yields a result for every journey and every clock reading.
\<close>

theorem empty_journey_no_attribution:
  "calculateAttributionModels now (Some []) =
     \<lparr>first_click = None, last_click = None, linear_model = [], time_decay = [],
      position_based = []\<rparr>
   \<and> calculateAttributionModels now None =
     \<lparr>first_click = None, last_click = None, linear_model = [], time_decay = [],
      position_based = []\<rparr>"
  by (simp add: calculateAttributionModels_def no_attribution_def)

text \<open>
  C10. For a non-empty journey each of the linear, time-decay and position-based lists,
  stripped of the added \<open>attribution_weight\<close>, is the journey itself: same length, same
  order, every field of every touchpoint kept. The first click is the first element
  of the journey and the last click is its last element.
\<close>

theorem models_keep_journey:
  assumes "cj \<noteq> []"
  shows "map touchpoint.truncate (linear_model (calculateAttributionModels now (Some cj))) = cj
       \<and> map touchpoint.truncate (time_decay (calculateAttributionModels now (Some cj))) = cj
       \<and> map touchpoint.truncate (position_based (calculateAttributionModels now (Some cj))) = cj
       \<and> first_click (calculateAttributionModels now (Some cj)) = Some (hd cj)
       \<and> last_click (calculateAttributionModels now (Some cj)) = Some (last cj)"
proof -
  have "map touchpoint.truncate (map (\<lambda>tp. with_weight tp w) cj) = cj" for w
    by (induction cj) (simp_all add: truncate_with_weight)
  then show ?thesis
    using assms models_nonempty [OF assms, of now]
    by (simp add: calculateAttributionModels_def Let_def map_index_truncate)
qed

theorem models_keep_journey_witness:
  "[tp_search, tp_social] \<noteq> []
   \<and> map touchpoint.truncate
       (linear_model (calculateAttributionModels 5000 (Some [tp_search, tp_social])))
       = [tp_search, tp_social]
   \<and> map touchpoint.truncate
       (time_decay (calculateAttributionModels 5000 (Some [tp_search, tp_social])))
       = [tp_search, tp_social]
   \<and> map touchpoint.truncate
       (position_based (calculateAttributionModels 5000 (Some [tp_search, tp_social])))
       = [tp_search, tp_social]
   \<and> first_click (calculateAttributionModels 5000 (Some [tp_search, tp_social])) = Some tp_search
   \<and> last_click (calculateAttributionModels 5000 (Some [tp_search, tp_social])) = Some tp_social"
  using models_keep_journey [of "[tp_search, tp_social]" 5000] by simp

section \<open>Claims about the session tracker\<close>

text \<open>
  C7. Claimed: after two activity recordings with timestamps \<open>t1 < t2\<close>, in either
  order, \<open>expiresAt\<close> is at least \<open>max(t1, t2)\<close> plus 30 minutes, the extension taking the
  maximum of the old and the new expiry. The handler takes no maximum: it overwrites
  \<open>expiresAt\<close> with its own clock reading plus 30 minutes. Recorded at reading 2000 and
  then at reading 1000, the session expires at 1000 plus 30 minutes.
\<close>

theorem session_expiry_out_of_order_counterexample:
  "handleSessionStart 1000 visit_first (handleSessionStart 2000 visit_first Map.empty) ''s1'' \<noteq> None
   \<and> expiresAt (the (handleSessionStart 1000 visit_first
                       (handleSessionStart 2000 visit_first Map.empty) ''s1''))
       < max 1000 2000 + 30 * 60 * 1000"
  by (simp add: handleSessionStart_def visit_first_def session_update_def session_create_def
        inactivityWindow_def)

text \<open>
  C7, as the handler has it: after two recordings of one session, made at clock
  readings \<open>n1\<close> and then \<open>n2\<close>, \<open>expiresAt\<close> is \<open>n2\<close> plus 30 minutes whatever it was
  before; so it is at least \<open>max(n1, n2)\<close> plus 30 minutes when the readings are in
  processing order (\<open>n1 \<le> n2\<close>).
\<close>

theorem session_expiry_last_write:
  assumes "d_sessionId d1 = d_sessionId d2"
  shows "handleSessionStart n2 d2 (handleSessionStart n1 d1 tbl) (d_sessionId d2) \<noteq> None
       \<and> expiresAt (the (handleSessionStart n2 d2 (handleSessionStart n1 d1 tbl) (d_sessionId d2)))
           = n2 + 30 * 60 * 1000
       \<and> (n1 \<le> n2 \<longrightarrow>
            max n1 n2 + 30 * 60 * 1000
              \<le> expiresAt (the (handleSessionStart n2 d2 (handleSessionStart n1 d1 tbl)
                                  (d_sessionId d2))))"
proof -
  have first: "handleSessionStart n1 d1 tbl (d_sessionId d2) \<noteq> None"
    using assms by (simp add: handleSessionStart_def split: option.splits)
  then obtain s where s: "handleSessionStart n1 d1 tbl (d_sessionId d2) = Some s"
    by blast
  have "handleSessionStart n2 d2 (handleSessionStart n1 d1 tbl) (d_sessionId d2)
        = Some (session_update n2 s)"
    by (simp add: handleSessionStart_def [of n2] s)
  then show ?thesis
    by (simp add: session_update_def inactivityWindow_def)
qed

theorem session_expiry_last_write_witness:
  "d_sessionId visit_first = d_sessionId visit_later \<and> (1000::int) \<le> 2000
   \<and> handleSessionStart 2000 visit_later (handleSessionStart 1000 visit_first Map.empty) ''s1'' \<noteq> None
   \<and> expiresAt (the (handleSessionStart 2000 visit_later
                       (handleSessionStart 1000 visit_first Map.empty) ''s1'')) = 1802000
   \<and> max 1000 2000 + 30 * 60 * 1000
       \<le> expiresAt (the (handleSessionStart 2000 visit_later
                            (handleSessionStart 1000 visit_first Map.empty) ''s1''))"
proof -
  have h: "d_sessionId visit_first = d_sessionId visit_later"
    by (simp add: visit_first_def visit_later_def)
  have k: "d_sessionId visit_later = ''s1''"
    by (simp add: visit_later_def)
  show ?thesis
    using session_expiry_last_write [OF h, of 2000 1000 Map.empty] h k by simp
qed

text \<open>
  C9. Claimed: recording further activity for an existing session merges the
  newly-observed context into it, filling fields that are empty. The handler merges
  nothing: a session created without campaign and \<open>fbclid\<close> still has neither after a
  later \<open>session_start\<close> that carries both.
\<close>

theorem session_context_not_merged_counterexample:
  "utmCampaign (the (handleSessionStart 1000 visit_first Map.empty ''s1'')) = None
   \<and> fbclid (the (handleSessionStart 1000 visit_first Map.empty ''s1'')) = None
   \<and> d_utmCampaign visit_later = Some ''promo'' \<and> d_fbclid visit_later = Some ''fb1''
   \<and> handleSessionStart 5000 visit_later (handleSessionStart 1000 visit_first Map.empty) ''s1''
       \<noteq> None
   \<and> utmCampaign (the (handleSessionStart 5000 visit_later
                         (handleSessionStart 1000 visit_first Map.empty) ''s1'')) = None
   \<and> fbclid (the (handleSessionStart 5000 visit_later
                    (handleSessionStart 1000 visit_first Map.empty) ''s1'')) = None"
  by (simp add: handleSessionStart_def visit_first_def visit_later_def session_update_def
        session_create_def)

text \<open>
  C9, as the handler has it. Recording a \<open>session_start\<close> inserts the session, from
  the payload, when the table has none under that identifier. When it has one, the
  row keeps every field except \<open>updatedAt\<close> and \<open>expiresAt\<close>: the UTM parameters and
  click identifiers captured at creation are never overwritten, and nothing of the
  new payload is copied into the row, so an empty field stays empty. No other session
  is touched.
\<close>

theorem session_activity_frame:
  "(tbl (d_sessionId d) = None \<longrightarrow>
      handleSessionStart now d tbl (d_sessionId d) = Some (session_create now d))
   \<and> (tbl (d_sessionId d) = Some s \<longrightarrow>
        handleSessionStart now d tbl (d_sessionId d)
          = Some (s\<lparr>updatedAt := now, expiresAt := now + 30 * 60 * 1000\<rparr>))
   \<and> (tbl (d_sessionId d) = Some s \<and> handleSessionStart now d tbl (d_sessionId d) = Some s' \<longrightarrow>
        sessionId s' = sessionId s \<and> visitorId s' = visitorId s \<and> createdAt s' = createdAt s
        \<and> utmSource s' = utmSource s \<and> utmMedium s' = utmMedium s
        \<and> utmCampaign s' = utmCampaign s \<and> utmTerm s' = utmTerm s
        \<and> utmContent s' = utmContent s \<and> fbclid s' = fbclid s \<and> gclid s' = gclid s
        \<and> ttclid s' = ttclid s \<and> referrer s' = referrer s \<and> landingPage s' = landingPage s
        \<and> userAgent s' = userAgent s \<and> ipAddress s' = ipAddress s
        \<and> deviceType s' = deviceType s \<and> browser s' = browser s \<and> os s' = os s
        \<and> country s' = country s \<and> timezone s' = timezone s \<and> language s' = language s)
   \<and> (k \<noteq> d_sessionId d \<longrightarrow> handleSessionStart now d tbl k = tbl k)
   \<and> dom (handleSessionStart now d tbl) = insert (d_sessionId d) (dom tbl)"
  by (auto simp: handleSessionStart_def session_update_def inactivityWindow_def
        split: option.splits)

theorem session_activity_frame_witness:
  "Map.empty (d_sessionId visit_first) = None
   \<and> handleSessionStart 1000 visit_first Map.empty ''s1'' = Some (session_create 1000 visit_first)
   \<and> [''s1'' \<mapsto> session_create 1000 visit_first] (d_sessionId visit_later)
       = Some (session_create 1000 visit_first)
   \<and> handleSessionStart 5000 visit_later [''s1'' \<mapsto> session_create 1000 visit_first] ''s1''
       = Some ((session_create 1000 visit_first)\<lparr>updatedAt := 5000, expiresAt := 1805000\<rparr>)
   \<and> utmSource ((session_create 1000 visit_first)\<lparr>updatedAt := 5000, expiresAt := 1805000\<rparr>)
       = Some ''google''
   \<and> fbclid ((session_create 1000 visit_first)\<lparr>updatedAt := 5000, expiresAt := 1805000\<rparr>) = None
   \<and> ''s2'' \<noteq> d_sessionId visit_later
   \<and> handleSessionStart 5000 visit_later [''s1'' \<mapsto> session_create 1000 visit_first] ''s2'' = None"
proof -
  have a: "d_sessionId visit_first = ''s1''" by (simp add: visit_first_def)
  have b: "d_sessionId visit_later = ''s1''" by (simp add: visit_later_def)
  have c: "utmSource (session_create 1000 visit_first) = Some ''google''"
      "fbclid (session_create 1000 visit_first) = None"
    by (simp_all add: session_create_def visit_first_def)
  show ?thesis
    using session_activity_frame [of Map.empty visit_first 1000 "session_create 1000 visit_first"
            "session_create 1000 visit_first" "''s2''"]
      session_activity_frame [of "[''s1'' \<mapsto> session_create 1000 visit_first]" visit_later
            5000 "session_create 1000 visit_first"
            "(session_create 1000 visit_first)\<lparr>updatedAt := 5000, expiresAt := 1805000\<rparr>" "''s2''"]
    by (simp add: a b c)
qed

section \<open>Claims about the funnel aggregator\<close>

text \<open>
  C5. Claimed: the rate reported for every step \<open>i > 0\<close> is
  \<open>visitors[i] / visitors[0] * 100\<close>. When no session reached step 0 that quotient is
  not a number (\<open>Infinity\<close> or \<open>NaN\<close>), and the function reports 0 instead: with a single
  \<open>product_view\<close> event and no \<open>page_view\<close>, step 1 has one visitor, step 0 none, and
  the reported rate of step 1 is 0.
\<close>

theorem funnel_rate_zero_base_counterexample:
  "visitors (getFunnelData cart_only_events 0 10 ! 0) = 0
   \<and> visitors (getFunnelData cart_only_events 0 10 ! 1) = 1
   \<and> conversionRate (getFunnelData cart_only_events 0 10 ! 1) = 0
   \<and> map_option (\<lambda>q. q * 100)
        (js_divide (real (visitors (getFunnelData cart_only_events 0 10 ! 1)))
                   (real (visitors (getFunnelData cart_only_events 0 10 ! 0))))
       \<noteq> Some (conversionRate (getFunnelData cart_only_events 0 10 ! 1))"
proof -
  have rows: "countVisitors steps cart_only_events 0 10 =
     [\<lparr>step = ''Landing Page Views'', visitors = 0, conversionRate = 0, dropOff = 0\<rparr>,
      \<lparr>step = ''Product Views'', visitors = 1, conversionRate = 0, dropOff = 0\<rparr>,
      \<lparr>step = ''Add to Cart'', visitors = 0, conversionRate = 0, dropOff = 0\<rparr>,
      \<lparr>step = ''Checkout Started'', visitors = 0, conversionRate = 0, dropOff = 0\<rparr>,
      \<lparr>step = ''Purchase'', visitors = 0, conversionRate = 0, dropOff = 0\<rparr>]"
    by (simp add: countVisitors_def steps_def groupBySession_def cart_only_events_def)
  have "getFunnelData cart_only_events 0 10 ! 0 = rated (countVisitors steps cart_only_events 0 10) 0"
    "getFunnelData cart_only_events 0 10 ! 1 = rated (countVisitors steps cart_only_events 0 10) 1"
    by (simp_all add: getFunnelData_def computeFunnel_def calculateRates_rated rows del: upt_Suc)
  then show ?thesis
    by (simp add: rows rated_def js_divide_def)
qed

text \<open>
  C5, as the function has it. With \<open>v i\<close> the number of distinct sessions having an
  event of step \<open>i\<close>'s name created inside the window: there is one row per step, in
  order, row \<open>i\<close> reporting \<open>v i\<close> visitors; step 0 reports rate 100 and drop-off 0;
  every step \<open>i > 0\<close> reports the rate \<open>v i / v 0 * 100\<close> when \<open>v 0 > 0\<close> and 0 when
  \<open>v 0 = 0\<close>, and the drop-off \<open>v (i - 1) - v i\<close>. Rows counting 100, 60, 20 and 5
  visitors get the rates 100, 60, 20, 5 and the drop-offs 0, 40, 40, 15.
\<close>

theorem funnel_rates_relative_to_first_step:
  assumes "i < length sts"
    and "v = (\<lambda>j. card (ev_sessionId ` {e \<in> set events.
                 ev_eventName e = eventPattern (sts ! j)
                 \<and> startDate \<le> ev_createdAt e \<and> ev_createdAt e \<le> endDate}))"
  shows "length (computeFunnel sts events startDate endDate) = length sts
       \<and> step (computeFunnel sts events startDate endDate ! i) = step_name (sts ! i)
       \<and> visitors (computeFunnel sts events startDate endDate ! i) = v i
       \<and> conversionRate (computeFunnel sts events startDate endDate ! 0) = 100
       \<and> dropOff (computeFunnel sts events startDate endDate ! 0) = 0
       \<and> (0 < i \<and> 0 < v 0 \<longrightarrow>
            conversionRate (computeFunnel sts events startDate endDate ! i)
              = real (v i) / real (v 0) * 100)
       \<and> (0 < i \<and> v 0 = 0 \<longrightarrow>
            conversionRate (computeFunnel sts events startDate endDate ! i) = 0)
       \<and> (0 < i \<longrightarrow>
            dropOff (computeFunnel sts events startDate endDate ! i) = int (v (i - 1)) - int (v i))
       \<and> map conversionRate (calculateRates counted_rows) = [100, 60, 20, 5]
       \<and> map dropOff (calculateRates counted_rows) = [0, 40, 40, 15]"
proof -
  let ?fd = "countVisitors sts events startDate endDate"
  have len: "length ?fd = length sts"
    by (simp add: countVisitors_def)
  have vis: "visitors (?fd ! j) = v j" if "j < length sts" for j
    using that by (simp add: countVisitors_def groupBySession_card assms(2))
  have init: "step (?fd ! j) = step_name (sts ! j)" "dropOff (?fd ! j) = 0" if "j < length sts" for j
    using that by (simp_all add: countVisitors_def)
  have row: "computeFunnel sts events startDate endDate ! j = rated ?fd j" if "j < length sts" for j
    using that by (simp add: computeFunnel_def calculateRates_rated len del: upt_Suc)
  have pos: "0 < length sts" using assms(1) by (cases sts) simp_all
  have i1: "i - 1 < length sts" using assms(1) by simp
  have a: "length (computeFunnel sts events startDate endDate) = length sts"
    by (simp add: computeFunnel_def calculateRates_rated len)
  have b: "step (computeFunnel sts events startDate endDate ! i) = step_name (sts ! i)"
    "visitors (computeFunnel sts events startDate endDate ! i) = v i"
    using init(1) [OF assms(1)] init(1) [OF pos] vis [OF assms(1)] vis [OF pos]
    by (simp_all add: row [OF assms(1)] rated_def)
  have c: "conversionRate (computeFunnel sts events startDate endDate ! 0) = 100"
    "dropOff (computeFunnel sts events startDate endDate ! 0) = 0"
    using init(2) [OF pos] by (simp_all add: row [OF pos] rated_def)
  have d: "0 < i \<Longrightarrow> conversionRate (computeFunnel sts events startDate endDate ! i)
              = (if 0 < v 0 then real (v i) / real (v 0) * 100 else 0)"
    "0 < i \<Longrightarrow> dropOff (computeFunnel sts events startDate endDate ! i) = int (v (i - 1)) - int (v i)"
    using vis [OF assms(1)] vis [OF pos] vis [OF i1]
    by (simp_all add: row [OF assms(1)] rated_def)
  have e: "map conversionRate (calculateRates counted_rows) = [100, 60, 20, 5]"
    "map dropOff (calculateRates counted_rows) = [0, 40, 40, 15]"
    by (simp_all add: calculateRates_rated counted_rows_def rated_def upt_4)
  show ?thesis
    using a b c d e by simp
qed

theorem funnel_rates_relative_to_first_step_witness:
  "(1::nat) < length two_steps
   \<and> card (ev_sessionId ` {e \<in> set sample_events.
        ev_eventName e = eventPattern (two_steps ! 0) \<and> 0 \<le> ev_createdAt e \<and> ev_createdAt e \<le> 100}) = 2
   \<and> card (ev_sessionId ` {e \<in> set sample_events.
        ev_eventName e = eventPattern (two_steps ! 1) \<and> 0 \<le> ev_createdAt e \<and> ev_createdAt e \<le> 100}) = 1
   \<and> visitors (computeFunnel two_steps sample_events 0 100 ! 1) = 1
   \<and> conversionRate (computeFunnel two_steps sample_events 0 100 ! 0) = 100
   \<and> conversionRate (computeFunnel two_steps sample_events 0 100 ! 1) = 50
   \<and> dropOff (computeFunnel two_steps sample_events 0 100 ! 1) = 1"
proof -
  have h: "(1::nat) < length two_steps"
    by (simp add: two_steps_def)
  have c0: "card (ev_sessionId ` {e \<in> set sample_events.
        ev_eventName e = eventPattern (two_steps ! 0) \<and> 0 \<le> ev_createdAt e \<and> ev_createdAt e \<le> 100}) = 2"
    by (subst groupBySession_card [symmetric])
       (simp add: groupBySession_def sample_events_def two_steps_def)
  have c1: "card (ev_sessionId ` {e \<in> set sample_events.
        ev_eventName e = eventPattern (two_steps ! 1) \<and> 0 \<le> ev_createdAt e \<and> ev_createdAt e \<le> 100}) = 1"
    by (subst groupBySession_card [symmetric])
       (simp add: groupBySession_def sample_events_def two_steps_def)
  show ?thesis
    using funnel_rates_relative_to_first_step [OF h refl, of sample_events 0 100] h c0 c1
    by simp
qed

section \<open>Auxiliary facts about the conversion recorder\<close>

lemma conversions_updateCampaignPerformance:
  "conversions (updateCampaignPerformance now source medium cmp revenue st) = conversions st"
  by (simp add: updateCampaignPerformance_def split: option.splits)

lemma conversions_updateDailyMetrics:
  "conversions (updateDailyMetrics now revenue st) = conversions st"
  by (simp add: updateDailyMetrics_def Let_def split: option.splits)

lemma sessions_updateCampaignPerformance:
  "sessions (updateCampaignPerformance now source medium cmp revenue st) = sessions st"
  by (simp add: updateCampaignPerformance_def split: option.splits)

lemma sessions_updateDailyMetrics:
  "sessions (updateDailyMetrics now revenue st) = sessions st"
  by (simp add: updateDailyMetrics_def Let_def split: option.splits)

lemma conversion_create_Inr:
  assumes "conversion_create row st = Inr (c, st')"
  shows "c = row\<lparr>cv_id := length (conversions st)\<rparr>"
    and "st' = st\<lparr>conversions := conversions st @ [c]\<rparr>"
    and "conversionId row \<notin> set (map conversionId (conversions st))"
    and "sessions st (cv_sessionId row) \<noteq> None"
  using assms by (auto simp: conversion_create_def Let_def split: if_splits)

lemma conversion_create_Inl:
  "conversionId row \<in> set (map conversionId (conversions st))
   \<Longrightarrow> conversion_create row st = Inl UniqueConstraintViolation"
  by (simp add: conversion_create_def)

lemma conversion_create_ok:
  assumes "conversionId row \<notin> set (map conversionId (conversions st))"
    and "sessions st (cv_sessionId row) \<noteq> None"
  shows "conversion_create row st
         = Inr (row\<lparr>cv_id := length (conversions st)\<rparr>,
                st\<lparr>conversions := conversions st @ [row\<lparr>cv_id := length (conversions st)\<rparr>]\<rparr>)"
  using assms by (auto simp: conversion_create_def Let_def)

lemma processConversion_Inr:
  assumes "processConversion now od attr cj st = Inr (c, st')"
  shows "c = (conversionRow now od attr cj)\<lparr>cv_id := length (conversions st)\<rparr>"
    and "conversions st' = conversions st @ [c]"
    and "sessions st' = sessions st"
    and "conversionId c \<notin> set (map conversionId (conversions st))"
proof -
  obtain c0 st1 where cr: "conversion_create (conversionRow now od attr cj) st = Inr (c0, st1)"
    using assms by (auto simp: processConversion_def split: sum.splits)
  note facts = conversion_create_Inr [OF cr]
  have c: "c = c0"
    using assms cr by (simp add: processConversion_def Let_def)
  have conv: "conversions st' = conversions st1" and sess: "sessions st' = sessions st1"
    using assms cr
    by (auto simp: processConversion_def Let_def conversions_updateCampaignPerformance
          conversions_updateDailyMetrics sessions_updateCampaignPerformance
          sessions_updateDailyMetrics split: option.splits if_splits)
  show "c = (conversionRow now od attr cj)\<lparr>cv_id := length (conversions st)\<rparr>"
    using c facts(1) by simp
  show "conversions st' = conversions st @ [c]"
    using conv c facts(2) by simp
  show "sessions st' = sessions st"
    using sess facts(2) by simp
  show "conversionId c \<notin> set (map conversionId (conversions st))"
    using c facts(1,3) by simp
qed

lemma processConversion_ok:
  assumes "conversionId (conversionRow now od attr cj) \<notin> set (map conversionId (conversions st))"
    and "sessions st (cv_sessionId (conversionRow now od attr cj)) \<noteq> None"
  shows "\<exists>st'. processConversion now od attr cj st
           = Inr ((conversionRow now od attr cj)\<lparr>cv_id := length (conversions st)\<rparr>, st')"
  by (simp add: processConversion_def conversion_create_ok [OF assms] Let_def)

lemma processConversion_duplicate_id:
  "conversionId (conversionRow now od attr cj) \<in> set (map conversionId (conversions st))
   \<Longrightarrow> processConversion now od attr cj st = Inl UniqueConstraintViolation"
  by (simp add: processConversion_def conversion_create_Inl)

lemma conversionRow_fields:
  "conversionId (conversionRow now od attr cj) = ''conv_'' @ order_id od @ ''_'' @ show_int now"
  "orderId (conversionRow now od attr cj) = Some (order_id od)"
  "totalValue (conversionRow now od attr cj) = total_price od"
  "attributionData (conversionRow now od attr cj)
     = Some \<lparr>customer_journey = cj, attribution_models = calculateAttributionModels now cj,
             original_attribution = attr\<rparr>"
  by (simp_all add: conversionRow_def Let_def)

lemma conversionRow_session:
  "cv_sessionId (conversionRow now od (Some a) cj)
     = (if truthy (a_session_id a) then the (a_session_id a) else ''unknown_'' @ show_int now)"
  by (simp add: conversionRow_def Let_def)

lemma updateMany_conversions:
  "conversions (updateMany oid f st) = map (\<lambda>c. if orderId c = Some oid then f c else c) (conversions st)"
  by (simp add: updateMany_def)

lemma updateSessionAttribution_ids:
  "map conversionId (conversions (updateSessionAttribution now sid order st))
     = map conversionId (conversions st)"
  by (simp add: updateSessionAttribution_def updateMany_def Let_def comp_def split: option.splits)

lemma handleOrderCreate_Inr:
  assumes "handleOrderCreate now order st = Inr (c, st')"
  shows "map conversionId (conversions st') = map conversionId (conversions st) @ [''shopify_'' @ so_id order]"
proof -
  obtain c0 st1 where cr: "conversion_create (shopifyRow order) st = Inr (c0, st1)"
    using assms by (auto simp: handleOrderCreate_def split: sum.splits)
  note facts = conversion_create_Inr [OF cr]
  have "map conversionId (conversions st') = map conversionId (conversions st1)"
    using assms cr
    by (auto simp: handleOrderCreate_def Let_def updateSessionAttribution_ids
          split: option.splits if_splits)
  also have "\<dots> = map conversionId (conversions st) @ [''shopify_'' @ so_id order]"
    by (simp add: facts(1,2) shopifyRow_def)
  finally show ?thesis .
qed

lemma show_int_samples: "show_int 1000 = ''1000''" "show_int 2000 = ''2000''"
  by (simp_all add: show_int_def digit_char_def)

lemma store_after_Inr: "store_after st (Inr (c, st')) = st'"
  by (simp add: store_after_def)

lemma first_call_ok:
  "\<exists>st'. first_call = Inr ((conversionRow 1000 order_a (Some attr_a) (Some [tp_search, tp_social]))
                            \<lparr>cv_id := 0\<rparr>, st')"
proof -
  have "\<exists>st'. processConversion 1000 order_a (Some attr_a) (Some [tp_search, tp_social]) shop_db
          = Inr ((conversionRow 1000 order_a (Some attr_a) (Some [tp_search, tp_social]))
                   \<lparr>cv_id := length (conversions shop_db)\<rparr>, st')"
    by (rule processConversion_ok)
       (simp_all add: shop_db_def conversionRow_session attr_a_def truthy_def)
  then show ?thesis
    by (simp add: first_call_def shop_db_def)
qed

lemma first_call_store:
  "conversions (store_after shop_db first_call)
     = [(conversionRow 1000 order_a (Some attr_a) (Some [tp_search, tp_social]))\<lparr>cv_id := 0\<rparr>]"
  "sessions (store_after shop_db first_call) = sessions shop_db"
proof -
  obtain st' where r: "first_call = Inr ((conversionRow 1000 order_a (Some attr_a)
      (Some [tp_search, tp_social]))\<lparr>cv_id := 0\<rparr>, st')"
    using first_call_ok by blast
  note facts = processConversion_Inr [OF r [unfolded first_call_def]]
  show "conversions (store_after shop_db first_call)
     = [(conversionRow 1000 order_a (Some attr_a) (Some [tp_search, tp_social]))\<lparr>cv_id := 0\<rparr>]"
    using facts(2) by (simp add: store_after_Inr r shop_db_def)
  show "sessions (store_after shop_db first_call) = sessions shop_db"
    using facts(3) by (simp add: store_after_Inr r)
qed

lemma second_call_ok:
  "\<exists>st'. second_call = Inr ((conversionRow 2000 order_a (Some attr_a) (Some [tp_search, tp_social]))
                             \<lparr>cv_id := 1\<rparr>, st')"
proof -
  have fresh: "conversionId (conversionRow 2000 order_a (Some attr_a) (Some [tp_search, tp_social]))
        \<notin> set (map conversionId (conversions (store_after shop_db first_call)))"
    by (simp add: first_call_store(1) conversionRow_fields show_int_samples)
  have "sessions shop_db ''s1'' \<noteq> None"
    by (simp add: shop_db_def)
  then have known: "sessions (store_after shop_db first_call)
        (cv_sessionId (conversionRow 2000 order_a (Some attr_a) (Some [tp_search, tp_social]))) \<noteq> None"
    by (simp add: first_call_store(2) conversionRow_session attr_a_def truthy_def)
  show ?thesis
    using processConversion_ok [OF fresh known]
    by (simp add: second_call_def first_call_store(1))
qed

lemma second_call_store:
  "conversions (store_after (store_after shop_db first_call) second_call)
     = [(conversionRow 1000 order_a (Some attr_a) (Some [tp_search, tp_social]))\<lparr>cv_id := 0\<rparr>,
        (conversionRow 2000 order_a (Some attr_a) (Some [tp_search, tp_social]))\<lparr>cv_id := 1\<rparr>]"
proof -
  obtain st' where r: "second_call = Inr ((conversionRow 2000 order_a (Some attr_a)
      (Some [tp_search, tp_social]))\<lparr>cv_id := 1\<rparr>, st')"
    using second_call_ok by blast
  note facts = processConversion_Inr [OF r [unfolded second_call_def]]
  have "store_after (store_after shop_db first_call) second_call = st'"
    by (simp add: r store_after_Inr)
  then show ?thesis
    using facts(2) by (simp add: first_call_store(1))
qed

lemma hook_call_ok: "\<exists>c st'. hook_call = Inr (c, st')"
proof -
  have "conversion_create (shopifyRow shopify_a) shop_db
        = Inr ((shopifyRow shopify_a)\<lparr>cv_id := length (conversions shop_db)\<rparr>,
               shop_db\<lparr>conversions := conversions shop_db
                        @ [(shopifyRow shopify_a)\<lparr>cv_id := length (conversions shop_db)\<rparr>]\<rparr>)"
    by (rule conversion_create_ok)
       (simp_all add: shop_db_def shopifyRow_def shopify_a_def truthy_def)
  then show ?thesis
    by (simp add: hook_call_def handleOrderCreate_def Let_def)
qed

section \<open>Claims about the conversion recorder\<close>

text \<open>
  C4. Claimed: a second recording call with the same \<open>orderId\<close> leaves exactly one
  Conversion, updates only total value and item count, and produces no second
  attribution snapshot. \<open>processConversion\<close> inserts a row on every call, under the
  identifier \<open>conv_<orderId>_<clock>\<close>: the same order with the same data, recorded at
  clock readings 1000 and 2000, leaves two Conversions of order \<open>A\<close>, each with its
  own attribution snapshot.
\<close>

theorem conversion_recorded_twice_counterexample:
  "map orderId (conversions (store_after (store_after shop_db first_call) second_call))
     = [Some ''A'', Some ''A'']
   \<and> map conversionId (conversions (store_after (store_after shop_db first_call) second_call))
     = [''conv_A_1000'', ''conv_A_2000'']
   \<and> attributionData (conversions (store_after (store_after shop_db first_call) second_call) ! 1)
     \<noteq> None
   \<and> length (conversions (store_after (store_after shop_db first_call) second_call)) \<noteq> 1"
  by (simp add: second_call_store conversionRow_fields show_int_samples order_a_def)

text \<open>
  C4, as the handlers have it. Every successful \<open>processConversion\<close> call appends one
  Conversion carrying the order's identifier and the attribution snapshot computed in
  that call, and leaves the earlier rows as they are; so two successful calls for one
  order leave two rows. A call whose \<open>conversionId\<close> is already stored, which is a
  repeat at the same clock reading or a repeated Shopify \<open>orders/create\<close> (identifier
  \<open>shopify_<id>\<close>), is rejected with a unique-constraint error and the store stays as
  it was.
\<close>

theorem conversion_recording_per_call:
  assumes "processConversion n1 od attr cj st = Inr (c1, st1)"
    and "processConversion n2 od' attr' cj' st1 = Inr (c2, st2)"
    and "order_id od' = order_id od"
    and "handleOrderCreate n3 order st3 = Inr (c3, st4)"
  shows "conversions st2 = conversions st @ [c1, c2]
       \<and> orderId c1 = Some (order_id od) \<and> orderId c2 = Some (order_id od)
       \<and> attributionData c1
           = Some \<lparr>customer_journey = cj, attribution_models = calculateAttributionModels n1 cj,
                   original_attribution = attr\<rparr>
       \<and> attributionData c2
           = Some \<lparr>customer_journey = cj', attribution_models = calculateAttributionModels n2 cj',
                   original_attribution = attr'\<rparr>
       \<and> processConversion n1 od' attr' cj' st1 = Inl UniqueConstraintViolation
       \<and> store_after st1 (processConversion n1 od' attr' cj' st1) = st1
       \<and> handleOrderCreate n4 order st4 = Inl UniqueConstraintViolation
       \<and> store_after st4 (handleOrderCreate n4 order st4) = st4"
proof -
  note f1 = processConversion_Inr [OF assms(1)]
  note f2 = processConversion_Inr [OF assms(2)]
  have rows: "conversions st2 = conversions st @ [c1, c2]"
    using f1(2) f2(2) by simp
  have o1: "orderId c1 = Some (order_id od)" and a1: "attributionData c1
           = Some \<lparr>customer_journey = cj, attribution_models = calculateAttributionModels n1 cj,
                   original_attribution = attr\<rparr>"
    by (simp_all add: f1(1) conversionRow_fields)
  have o2: "orderId c2 = Some (order_id od)" and a2: "attributionData c2
           = Some \<lparr>customer_journey = cj', attribution_models = calculateAttributionModels n2 cj',
                   original_attribution = attr'\<rparr>"
    by (simp_all add: f2(1) conversionRow_fields assms(3))
  have "conversionId (conversionRow n1 od' attr' cj') = conversionId c1"
    by (simp add: f1(1) conversionRow_fields assms(3))
  then have "conversionId (conversionRow n1 od' attr' cj') \<in> set (map conversionId (conversions st1))"
    by (simp add: f1(2))
  then have dup: "processConversion n1 od' attr' cj' st1 = Inl UniqueConstraintViolation"
    by (rule processConversion_duplicate_id)
  have "conversionId (shopifyRow order) \<in> set (map conversionId (conversions st4))"
    by (simp add: handleOrderCreate_Inr [OF assms(4)] shopifyRow_def)
  then have hook: "handleOrderCreate n4 order st4 = Inl UniqueConstraintViolation"
    by (simp add: handleOrderCreate_def conversion_create_Inl)
  have kept: "store_after st1 (processConversion n1 od' attr' cj' st1) = st1"
    "store_after st4 (handleOrderCreate n4 order st4) = st4"
    by (simp_all add: dup hook store_after_def)
  show ?thesis
    using rows o1 o2 a1 a2 dup hook kept by (intro conjI)
qed

theorem conversion_recording_per_call_witness:
  "processConversion 1000 order_a (Some attr_a) (Some [tp_search, tp_social]) shop_db
     = Inr (fst (projr first_call), store_after shop_db first_call)
   \<and> processConversion 2000 order_a (Some attr_a) (Some [tp_search, tp_social])
       (store_after shop_db first_call)
     = Inr (fst (projr second_call), store_after (store_after shop_db first_call) second_call)
   \<and> order_id order_a = order_id order_a
   \<and> handleOrderCreate 3000 shopify_a shop_db
     = Inr (fst (projr hook_call), store_after shop_db hook_call)
   \<and> conversions (store_after (store_after shop_db first_call) second_call)
       = conversions shop_db @ [fst (projr first_call), fst (projr second_call)]
   \<and> orderId (fst (projr first_call)) = Some (order_id order_a)
   \<and> orderId (fst (projr second_call)) = Some (order_id order_a)
   \<and> processConversion 1000 order_a (Some attr_a) (Some [tp_search, tp_social])
        (store_after shop_db first_call) = Inl UniqueConstraintViolation
   \<and> handleOrderCreate 4000 shopify_a (store_after shop_db hook_call) = Inl UniqueConstraintViolation"
proof -
  have h1: "processConversion 1000 order_a (Some attr_a) (Some [tp_search, tp_social]) shop_db
            = Inr (fst (projr first_call), store_after shop_db first_call)"
    using first_call_ok by (auto simp: store_after_Inr first_call_def)
  have h2: "processConversion 2000 order_a (Some attr_a) (Some [tp_search, tp_social])
              (store_after shop_db first_call)
            = Inr (fst (projr second_call), store_after (store_after shop_db first_call) second_call)"
    using second_call_ok by (auto simp: store_after_Inr second_call_def)
  have h3: "order_id order_a = order_id order_a"
    by simp
  have h4: "handleOrderCreate 3000 shopify_a shop_db
            = Inr (fst (projr hook_call), store_after shop_db hook_call)"
    using hook_call_ok by (auto simp: store_after_Inr hook_call_def)
  note spec = conversion_recording_per_call [OF h1 h2 h3 h4, of 4000]
  note rows = spec [THEN conjunct1]
  note o1 = spec [THEN conjunct2, THEN conjunct1]
  note o2 = spec [THEN conjunct2, THEN conjunct2, THEN conjunct1]
  note rest = spec [THEN conjunct2, THEN conjunct2, THEN conjunct2, THEN conjunct2, THEN conjunct2]
  note dup = rest [THEN conjunct1]
  note hook = rest [THEN conjunct2, THEN conjunct2, THEN conjunct1]
  show ?thesis
    using h1 h2 h3 h4 rows o1 o2 dup hook
    by (intro conjI) assumption+
qed

end
